theory Spec2Isabelle
  imports Main
begin

section \<open>The document tree\<close>

text \<open>
  The program works on a live browser document. An element is identified by its
  position in the tree: the empty path is the root element and \<open>i # p\<close> is the
  \<open>i\<close>-th child element of \<open>p\<close>, so \<open>parentElement\<close> is the tail of the path and the
  ancestor walk of the source is a recursion over the path.

  The browser supplies, for every element, its tag (as lower-case local name), its class
  list, its computed style and its attributes. Only attributes are written by the
  functions modelled here; the computed style is an input of the model (the page's style
  sheets are not part of the program).
\<close>

type_synonym node = "nat list"

fun parentElement :: "node \<Rightarrow> node option" where
  "parentElement [] = None"
| "parentElement (i # p) = Some p"

text \<open>\<open>inside c n\<close>: \<open>n\<close> is a proper descendant of \<open>c\<close>, the scope of \<open>c.querySelectorAll\<close>.\<close>

fun inside :: "node \<Rightarrow> node \<Rightarrow> bool" where
  "inside c [] = False"
| "inside c (i # p) = (p = c \<or> inside c p)"

record css =
  display :: string
  visibility :: string
  opacity :: string
  position :: string
  width :: string
  height :: string
  overflow :: string

datatype target = Document | Element node

datatype listener =
    TrapKeyDown nat
  | DynamicContentEvent
  | WizardNextClick node
  | WizardStepKeyDown node
  | TooltipKeyDown
  | DropdownKeyDown

datatype task = FocusTask node

datatype observer = ContainerObserver | DialogObserver nat

text \<open>
  The variables captured by the closures of one \<open>setupFocusTrap\<close> call. The source
  declares \<open>tabbableElements\<close> with \<open>let\<close> and \<open>firstTabbable\<close>, \<open>lastTabbable\<close>
  with \<open>const\<close>.
\<close>

record trap =
  modalElement :: node
  returnFocusOnClose :: bool
  previouslyFocusedElement :: "node option"
  tabbableElements :: "node list"
  firstTabbable :: node
  lastTabbable :: node

record dom =
  nodes :: "node list"
  tagName :: "node \<Rightarrow> string"
  classList :: "node \<Rightarrow> string list"
  computedStyle :: "node \<Rightarrow> css"
  attributes :: "node \<Rightarrow> string \<Rightarrow> string option"
  activeElement :: "node option"
  listeners :: "(target \<times> string \<times> listener) list"
  timers :: "(task \<times> nat) list"
  observers :: "(node \<times> observer) list"
  traps :: "trap list"
  clicked :: "node list"
  xhrPatches :: nat

datatype error = TypeError

datatype 'a result = Return 'a | Throw error

subsection \<open>Attributes\<close>

definition getAttribute :: "dom \<Rightarrow> node \<Rightarrow> string \<Rightarrow> string option" where
  "getAttribute s e a = attributes s e a"

definition hasAttribute :: "dom \<Rightarrow> node \<Rightarrow> string \<Rightarrow> bool" where
  "hasAttribute s e a = (attributes s e a \<noteq> None)"

definition setAttribute :: "dom \<Rightarrow> node \<Rightarrow> string \<Rightarrow> string \<Rightarrow> dom" where
  "setAttribute s e a v = s\<lparr>attributes := (attributes s)(e := (attributes s e)(a := Some v))\<rparr>"

definition removeAttribute :: "dom \<Rightarrow> node \<Rightarrow> string \<Rightarrow> dom" where
  "removeAttribute s e a = s\<lparr>attributes := (attributes s)(e := (attributes s e)(a := None))\<rparr>"

subsection \<open>Selectors\<close>

text \<open>
  The selector strings of the source are written as data: a compound selector is a list
  of simple selectors that must all match; \<open>Descendant a c\<close> is \<open>a c\<close> and
  \<open>Child a c\<close> is \<open>a > c\<close>. A selector list (the source joins with a comma) is a list
  of selectors.
\<close>

datatype simple =
    Tag string
  | Class string
  | HasAttr string
  | AttrEq string string
  | NotS simple

datatype selector =
    Compound "simple list"
  | Descendant "simple list" "simple list"
  | Child "simple list" "simple list"

fun matchesSimple :: "dom \<Rightarrow> node \<Rightarrow> simple \<Rightarrow> bool" where
  "matchesSimple s e (Tag t) = (tagName s e = t)"
| "matchesSimple s e (Class c) = (c \<in> set (classList s e))"
| "matchesSimple s e (HasAttr a) = (attributes s e a \<noteq> None)"
| "matchesSimple s e (AttrEq a v) = (attributes s e a = Some v)"
| "matchesSimple s e (NotS x) = (\<not> matchesSimple s e x)"

definition matchesCompound :: "dom \<Rightarrow> node \<Rightarrow> simple list \<Rightarrow> bool" where
  "matchesCompound s e cs = list_all (matchesSimple s e) cs"

fun hasAncestor :: "dom \<Rightarrow> simple list \<Rightarrow> node \<Rightarrow> bool" where
  "hasAncestor s cs [] = False"
| "hasAncestor s cs (i # p) = (matchesCompound s p cs \<or> hasAncestor s cs p)"

fun matches :: "dom \<Rightarrow> node \<Rightarrow> selector \<Rightarrow> bool" where
  "matches s e (Compound cs) = matchesCompound s e cs"
| "matches s e (Descendant as cs) = (matchesCompound s e cs \<and> hasAncestor s as e)"
| "matches s e (Child as cs) =
     (matchesCompound s e cs \<and>
      (case parentElement e of None \<Rightarrow> False | Some p \<Rightarrow> matchesCompound s p as))"

definition matchesAny :: "dom \<Rightarrow> node \<Rightarrow> selector list \<Rightarrow> bool" where
  "matchesAny s e sels = list_ex (matches s e) sels"

text \<open>\<open>container.querySelectorAll\<close>: the matching descendants, in document order.\<close>

definition querySelectorAll :: "dom \<Rightarrow> node \<Rightarrow> selector list \<Rightarrow> node list" where
  "querySelectorAll s c sels = filter (\<lambda>e. inside c e \<and> matchesAny s e sels) (nodes s)"


definition document_querySelector :: "dom \<Rightarrow> selector list \<Rightarrow> node option" where
  "document_querySelector s sels = find (\<lambda>e. matchesAny s e sels) (nodes s)"

subsection \<open>parseInt\<close>

text \<open>
  \<open>parseInt(string, 10)\<close>: leading white space is skipped, then an optional sign, then
  the longest run of decimal digits; no digit gives \<open>NaN\<close>, here \<open>None\<close>.

  A string is a list of code units below 256, so of the white space of JavaScript the
  tabulator, line feed, vertical tabulator, form feed, carriage return, space and
  no-break space (U+00A0) can occur; the white space above U+00FF cannot be written
  in such a string.
\<close>

definition isWhiteSpace :: "char \<Rightarrow> bool" where
  "isWhiteSpace c =
     (c \<in> set [CHR 0x09, CHR 0x0A, CHR 0x0B, CHR 0x0C, CHR 0x0D, CHR '' '', CHR 0xA0])"

definition digitValue :: "char \<Rightarrow> nat option" where
  "digitValue c = map_of (zip ''0123456789'' [0, 1, 2, 3, 4, 5, 6, 7, 8, 9]) c"

fun digits :: "int option \<Rightarrow> string \<Rightarrow> int option" where
  "digits acc [] = acc"
| "digits acc (c # cs) =
     (case digitValue c of
        None \<Rightarrow> acc
      | Some d \<Rightarrow> digits (Some (10 * (case acc of None \<Rightarrow> 0 | Some a \<Rightarrow> a) + int d)) cs)"

text \<open>
  The result of \<open>parseInt\<close> is a Number: the integer that the digits denote, rounded to
  the nearest double (ties to even). Integers below \<open>2^53\<close> are exact. An integer
  beyond the largest double reads as \<open>Infinity\<close>, for which \<open>2^1024\<close> stands: the
  program only compares results with 0 and takes the sign of a difference, and the
  difference of two infinities is \<open>NaN\<close>, which \<open>sort\<close> takes as 0.
\<close>

text \<open>
  \<open>halvings small m\<close> counts how often \<open>m\<close> has to be halved to come below \<open>2^53\<close>;
  \<open>small\<close> says whether \<open>m\<close> is below already. \<open>roundAt k m\<close> rounds \<open>m\<close> to a
  multiple of \<open>2^k\<close>.
\<close>

function halvings :: "bool \<Rightarrow> int \<Rightarrow> nat" where
  "halvings True m = 0"
| "halvings False m = Suc (halvings (m div 2 < 9007199254740992) (m div 2))"
  by pat_completeness auto
termination
  by (relation "measure (\<lambda>(small, m). if small then 0 else Suc (nat m))") auto

fun roundAt :: "nat \<Rightarrow> int \<Rightarrow> int" where
  "roundAt 0 m = m"
| "roundAt (Suc j) m =
     (let q = m div 2 ^ Suc j;
          r = m mod 2 ^ Suc j;
          half = 2 ^ j;
          q' = (if r > half \<or> (r = half \<and> odd q) then q + 1 else q);
          v = q' * 2 ^ Suc j
      in if v \<ge> 2 ^ 1024 then 2 ^ 1024 else v)"

definition toDouble :: "int \<Rightarrow> int" where
  "toDouble m = roundAt (halvings (m < 9007199254740992) m) m"

definition parseInt :: "string \<Rightarrow> int option" where
  "parseInt str =
     (let t = dropWhile isWhiteSpace str;
          neg = (t \<noteq> [] \<and> hd t = CHR ''-'');
          r = (if t \<noteq> [] \<and> (hd t = CHR ''-'' \<or> hd t = CHR ''+'') then tl t else t)
      in case digits None r of
           None \<Rightarrow> None
         | Some m \<Rightarrow> Some (if neg then - toDouble m else toDouble m))"

text \<open>\<open>parseInt(element.getAttribute('tabindex'), 10)\<close>; a missing attribute is \<open>null\<close>,
  which parses to \<open>NaN\<close>.\<close>

definition tabindexOf :: "dom \<Rightarrow> node \<Rightarrow> int option" where
  "tabindexOf s e = (case getAttribute s e ''tabindex'' of None \<Rightarrow> None | Some v \<Rightarrow> parseInt v)"

text \<open>Comparisons with \<open>NaN\<close> are false.\<close>

definition gt0 :: "int option \<Rightarrow> bool" where
  "gt0 v = (case v of None \<Rightarrow> False | Some i \<Rightarrow> i > 0)"

definition ge0 :: "int option \<Rightarrow> bool" where
  "ge0 v = (case v of None \<Rightarrow> False | Some i \<Rightarrow> i \<ge> 0)"

section \<open>TabindexManager\<close>

record options =
  container :: "selector list"
  fixNegativeTabindex :: bool
  fixHighTabindex :: bool
  ensureInteractiveElements :: bool
  enableMutationObserver :: bool
  enableDynamicContentSupport :: bool
  focusFirstElementInDynamicContent :: bool
  returnFocusOnDynamicContentClose :: bool
  supportWizardNavigation :: bool
  handleTooltipsAndDropdowns :: bool

definition defaultOptions :: options where
  "defaultOptions =
     \<lparr>container = [Compound [Tag ''body'']],
      fixNegativeTabindex = True, fixHighTabindex = True, ensureInteractiveElements = True,
      enableMutationObserver = True, enableDynamicContentSupport = True,
      focusFirstElementInDynamicContent = True, returnFocusOnDynamicContentClose = True,
      supportWizardNavigation = True, handleTooltipsAndDropdowns = True\<rparr>"

definition interactiveSelectors :: "selector list" where
  "interactiveSelectors =
     [Compound [Tag ''a'', HasAttr ''href''],
      Compound [Tag ''button'', NotS (HasAttr ''disabled'')],
      Compound [Tag ''input'', NotS (HasAttr ''disabled'')],
      Compound [Tag ''select'', NotS (HasAttr ''disabled'')],
      Compound [Tag ''textarea'', NotS (HasAttr ''disabled'')],
      Compound [AttrEq ''role'' ''button''],
      Compound [AttrEq ''role'' ''checkbox''],
      Compound [AttrEq ''role'' ''link''],
      Compound [AttrEq ''role'' ''menuitem''],
      Compound [AttrEq ''role'' ''option''],
      Compound [AttrEq ''role'' ''radio''],
      Compound [AttrEq ''role'' ''switch''],
      Compound [AttrEq ''role'' ''tab''],
      Compound [AttrEq ''contenteditable'' ''true''],
      Compound [AttrEq ''role'' ''dialog''],
      Compound [AttrEq ''role'' ''alertdialog''],
      Compound [AttrEq ''role'' ''tooltip''],
      Compound [AttrEq ''role'' ''navigation''],
      Compound [AttrEq ''role'' ''menu''],
      Compound [AttrEq ''role'' ''tablist''],
      Compound [AttrEq ''role'' ''combobox''],
      Compound [AttrEq ''role'' ''listbox''],
      Compound [AttrEq ''role'' ''tree''],
      Compound [AttrEq ''role'' ''grid''],
      Descendant [Tag ''details''] [Tag ''summary''],
      Compound [Class ''dropdown-toggle''],
      Compound [Class ''accordion-header''],
      Compound [Class ''carousel-control'']]"

definition nonInteractiveWithTabindex :: "selector list" where
  "nonInteractiveWithTabindex =
     [Compound [Tag ''div'', HasAttr ''tabindex''],
      Compound [Tag ''span'', HasAttr ''tabindex''],
      Compound [Tag ''p'', HasAttr ''tabindex''],
      Compound [Tag ''h1'', HasAttr ''tabindex''],
      Compound [Tag ''h2'', HasAttr ''tabindex''],
      Compound [Tag ''h3'', HasAttr ''tabindex''],
      Compound [Tag ''h4'', HasAttr ''tabindex''],
      Compound [Tag ''h5'', HasAttr ''tabindex''],
      Compound [Tag ''h6'', HasAttr ''tabindex'']]"

subsection \<open>Visibility\<close>

definition isVisuallyHidden :: "dom \<Rightarrow> node \<Rightarrow> bool" where
  "isVisuallyHidden s e =
     (let style = computedStyle s e in
      display style = ''none'' \<or>
      visibility style = ''hidden'' \<or>
      opacity style = ''0'' \<or>
      (position style = ''absolute'' \<and>
       (width style = ''1px'' \<or> height style = ''1px'') \<and>
       overflow style = ''hidden''))"

fun hasHiddenParent :: "dom \<Rightarrow> node \<Rightarrow> bool" where
  "hasHiddenParent s [] = False"
| "hasHiddenParent s (i # parent) =
     (if isVisuallyHidden s parent \<or> getAttribute s parent ''aria-hidden'' = Some ''true''
      then True
      else hasHiddenParent s parent)"

definition shouldBeRemovedFromTabOrder :: "dom \<Rightarrow> node \<Rightarrow> bool" where
  "shouldBeRemovedFromTabOrder s e =
     (if isVisuallyHidden s e \<or> hasHiddenParent s e then True
      else if getAttribute s e ''aria-hidden'' = Some ''true'' then True
      else False)"

definition isInteractiveElement :: "dom \<Rightarrow> node \<Rightarrow> bool" where
  "isInteractiveElement s e = list_ex (matches s e) interactiveSelectors"

definition hasKeyboardEventListeners :: "dom \<Rightarrow> node \<Rightarrow> bool" where
  "hasKeyboardEventListeners s e =
     (hasAttribute s e ''onkeydown'' \<or> hasAttribute s e ''onkeyup'' \<or>
      hasAttribute s e ''onkeypress'')"

subsection \<open>The normalizer passes\<close>

text \<open>
  Each pass takes a static node list with \<open>querySelectorAll\<close> and visits it with
  \<open>forEach\<close>; the callback sees the writes of the earlier iterations. Console output is
  not modelled.
\<close>

definition fixNegativeTabindexValues :: "dom \<Rightarrow> node \<Rightarrow> dom" where
  "fixNegativeTabindexValues s c =
     foldl (\<lambda>s element.
              if isInteractiveElement s element \<and> \<not> shouldBeRemovedFromTabOrder s element
              then setAttribute s element ''tabindex'' ''0''
              else s)
       s (querySelectorAll s c [Compound [AttrEq ''tabindex'' ''-1'']])"

definition fixHighTabindexValues :: "dom \<Rightarrow> node \<Rightarrow> dom" where
  "fixHighTabindexValues s c =
     foldl (\<lambda>s element.
              if gt0 (tabindexOf s element)
              then setAttribute s element ''tabindex'' ''0''
              else s)
       s (querySelectorAll s c [Compound [HasAttr ''tabindex'']])"

definition makeInteractiveElementsTabbable :: "dom \<Rightarrow> node \<Rightarrow> dom" where
  "makeInteractiveElementsTabbable s c =
     foldl (\<lambda>s element.
              if isVisuallyHidden s element \<or> hasHiddenParent s element then s
              else if \<not> hasAttribute s element ''tabindex''
              then setAttribute s element ''tabindex'' ''0''
              else s)
       s (querySelectorAll s c interactiveSelectors)"

definition validateNonInteractiveElements :: "dom \<Rightarrow> node \<Rightarrow> dom" where
  "validateNonInteractiveElements s c =
     foldl (\<lambda>s element.
              if ge0 (tabindexOf s element) \<and> \<not> hasAttribute s element ''role''
              then (if \<not> hasKeyboardEventListeners s element
                    then removeAttribute s element ''tabindex''
                    else s)
              else s)
       s (querySelectorAll s c nonInteractiveWithTabindex)"

subsection \<open>The order audit\<close>

text \<open>
  \<open>analyzeTabOrder\<close> builds an array of \<open>{element, tabindex}\<close> objects, sorts it and
  logs it; the model returns the sorted array. \<open>Array.prototype.sort\<close> is stable, and the
  comparison function is a consistent ordering, so the result is the one a stable
  insertion sort gives.
\<close>

type_synonym entry = "node \<times> int"

definition compareEntries :: "entry \<Rightarrow> entry \<Rightarrow> int" where
  "compareEntries a b =
     (if snd a > 0 \<and> snd b > 0 then snd a - snd b
      else if snd a > 0 then - 1
      else if snd b > 0 then 1
      else 0)"

fun insertBy :: "('a \<Rightarrow> 'a \<Rightarrow> int) \<Rightarrow> 'a \<Rightarrow> 'a list \<Rightarrow> 'a list" where
  "insertBy cmp x [] = [x]"
| "insertBy cmp x (y # ys) = (if cmp x y \<le> 0 then x # y # ys else y # insertBy cmp x ys)"

fun sortBy :: "('a \<Rightarrow> 'a \<Rightarrow> int) \<Rightarrow> 'a list \<Rightarrow> 'a list" where
  "sortBy cmp [] = []"
| "sortBy cmp (x # xs) = insertBy cmp x (sortBy cmp xs)"

definition analyzeTabOrder :: "dom \<Rightarrow> node \<Rightarrow> entry list" where
  "analyzeTabOrder s c =
     (let elementsWithTabindex = querySelectorAll s c [Compound [HasAttr ''tabindex'']];
          tabbable1 =
            foldl (\<lambda>acc element.
                     case tabindexOf s element of
                       None \<Rightarrow> acc
                     | Some tabindex \<Rightarrow>
                         if tabindex \<ge> 0 \<and> \<not> shouldBeRemovedFromTabOrder s element
                         then acc @ [(element, tabindex)]
                         else acc)
              [] elementsWithTabindex;
          naturallyTabbable = querySelectorAll s c interactiveSelectors;
          tabbable2 =
            foldl (\<lambda>acc element.
                     if \<not> hasAttribute s element ''tabindex'' \<and>
                        \<not> shouldBeRemovedFromTabOrder s element
                     then acc @ [(element, 0)]
                     else acc)
              tabbable1 naturallyTabbable
      in sortBy compareEntries tabbable2)"

subsection \<open>The focus trap\<close>

text \<open>\<open>element.getAttribute('tabindex') || '0'\<close>: \<open>null\<close> and the empty string are falsy.\<close>

definition tabindexOrZero :: "dom \<Rightarrow> node \<Rightarrow> string" where
  "tabindexOrZero s e =
     (case getAttribute s e ''tabindex'' of
        None \<Rightarrow> ''0''
      | Some v \<Rightarrow> if v = [] then ''0'' else v)"

definition findTabbableElements :: "dom \<Rightarrow> node \<Rightarrow> node list" where
  "findTabbableElements s c =
     filter (\<lambda>element. ge0 (parseInt (tabindexOrZero s element)) \<and>
                         \<not> shouldBeRemovedFromTabOrder s element)
       (querySelectorAll s c interactiveSelectors)"

text \<open>
  The options object of \<open>setupFocusTrap\<close>: a field that the caller left out is \<open>None\<close>.
\<close>

record trapOptions =
  optReturnFocusOnClose :: "bool option"
  optTriggerElement :: "node option"

datatype handle = NoopHandle | TrapHandle nat

text \<open>
  \<open>focus()\<close> is the browser's. It makes the receiver the active element of the
  document when the receiver can take focus, and does nothing otherwise. Following the
  HTML Standard, an element can take focus when it is rendered, is not a disabled form
  control, and either has a \<open>tabindex\<close> attribute that is an integer or is one of the
  elements that take focus by themselves: a link with \<open>href\<close>, a form control, the
  \<open>summary\<close> of a \<open>details\<close> element, an editing host. An element such as
  \<open>div role="button"\<close> without \<open>tabindex\<close> cannot take focus, whatever its role.

  \<open>click()\<close> is recorded; what the page's own click listeners do is not part of the
  program.
\<close>

definition nativelyFocusable :: "selector list" where
  "nativelyFocusable =
     [Compound [Tag ''a'', HasAttr ''href''],
      Compound [Tag ''area'', HasAttr ''href''],
      Compound [Tag ''button''],
      Compound [Tag ''input'', NotS (AttrEq ''type'' ''hidden'')],
      Compound [Tag ''select''],
      Compound [Tag ''textarea''],
      Child [Tag ''details''] [Tag ''summary''],
      Compound [AttrEq ''contenteditable'' ''true''],
      Compound [AttrEq ''contenteditable'' []]]"

definition disabledControl :: "dom \<Rightarrow> node \<Rightarrow> bool" where
  "disabledControl s e =
     (tagName s e \<in> set [''button'', ''input'', ''select'', ''textarea''] \<and>
      hasAttribute s e ''disabled'')"

text \<open>An element is in no box when it or an ancestor has \<open>display: none\<close>.\<close>

fun displayed :: "dom \<Rightarrow> node \<Rightarrow> bool" where
  "displayed s [] = (display (computedStyle s []) \<noteq> ''none'')"
| "displayed s (i # p) = (display (computedStyle s (i # p)) \<noteq> ''none'' \<and> displayed s p)"

text \<open>What takes focus by itself, without a \<open>tabindex\<close> attribute.\<close>

definition nativelyTabbable :: "dom \<Rightarrow> node \<Rightarrow> bool" where
  "nativelyTabbable s e = (\<not> disabledControl s e \<and> matchesAny s e nativelyFocusable)"

definition focusable :: "dom \<Rightarrow> node \<Rightarrow> bool" where
  "focusable s e =
     (displayed s e \<and> visibility (computedStyle s e) \<noteq> ''hidden'' \<and>
      \<not> disabledControl s e \<and>
      (tabindexOf s e \<noteq> None \<or> matchesAny s e nativelyFocusable))"

definition focus :: "dom \<Rightarrow> node \<Rightarrow> dom" where
  "focus s e = (if focusable s e then s\<lparr>activeElement := Some e\<rparr> else s)"


definition setTimeout :: "dom \<Rightarrow> task \<Rightarrow> nat \<Rightarrow> dom" where
  "setTimeout s t ms = s\<lparr>timers := timers s @ [(t, ms)]\<rparr>"

definition addEventListener :: "dom \<Rightarrow> target \<Rightarrow> string \<Rightarrow> listener \<Rightarrow> dom" where
  "addEventListener s t ev l = s\<lparr>listeners := listeners s @ [(t, ev, l)]\<rparr>"

definition removeEventListener :: "dom \<Rightarrow> target \<Rightarrow> string \<Rightarrow> listener \<Rightarrow> dom" where
  "removeEventListener s t ev l = s\<lparr>listeners := remove1 (t, ev, l) (listeners s)\<rparr>"

text \<open>
  Every call with a present element creates fresh closures; they are numbered by their
  position in \<open>traps\<close>, and the listener \<open>TrapKeyDown k\<close> is the \<open>handleKeyDown\<close> of
  trap \<open>k\<close>.
\<close>

definition setupFocusTrap :: "dom \<Rightarrow> node option \<Rightarrow> trapOptions \<Rightarrow> dom \<times> handle" where
  "setupFocusTrap s modal opts =
     (case modal of
        None \<Rightarrow> (s, NoopHandle)
      | Some m \<Rightarrow>
          (let returnFocus = (optReturnFocusOnClose opts \<noteq> Some False);
               triggerElement =
                 (case optTriggerElement opts of Some t \<Rightarrow> Some t | None \<Rightarrow> activeElement s);
               found = findTabbableElements s m;
               s1 = (if length found = 0 then setAttribute s m ''tabindex'' ''0'' else s);
               tabbable = (if length found = 0 then [m] else found);
               first = tabbable ! 0;
               last = tabbable ! (length tabbable - 1);
               s2 = setTimeout s1 (FocusTask first) 50;
               k = length (traps s2);
               s3 = s2\<lparr>traps := traps s2 @
                      [\<lparr>modalElement = m, returnFocusOnClose = returnFocus,
                        previouslyFocusedElement = triggerElement,
                        tabbableElements = tabbable,
                        firstTabbable = first, lastTabbable = last\<rparr>]\<rparr>;
               s4 = addEventListener s3 (Element m) ''keydown'' (TrapKeyDown k)
           in (s4, TrapHandle k)))"




text \<open>
  \<open>updateTabbableElements\<close> assigns \<open>tabbableElements\<close>, then assigns the \<open>const\<close>
  binding \<open>firstTabbable\<close>, which raises a \<open>TypeError\<close> at run time.
\<close>

definition updateTabbableElements :: "dom \<Rightarrow> nat \<Rightarrow> dom \<times> unit result" where
  "updateTabbableElements s k =
     (let t = traps s ! k;
          updatedElements = findTabbableElements s (modalElement t)
      in if length updatedElements > 0
         then (s\<lparr>traps := (traps s)[k := t\<lparr>tabbableElements := updatedElements\<rparr>]\<rparr>,
               Throw TypeError)
         else (s, Return ()))"

definition remove :: "dom \<Rightarrow> nat \<Rightarrow> dom \<times> unit result" where
  "remove s k =
     (let t = traps s ! k;
          s1 = removeEventListener s (Element (modalElement t)) ''keydown'' (TrapKeyDown k)
      in case previouslyFocusedElement t of
           Some p \<Rightarrow>
             if returnFocusOnClose t then (setTimeout s1 (FocusTask p) 50, Return ())
             else (s1, Return ())
         | None \<Rightarrow> (s1, Return ()))"

text \<open>The two methods of the object that \<open>setupFocusTrap\<close> returns.\<close>

definition handle_remove :: "dom \<Rightarrow> handle \<Rightarrow> dom \<times> unit result" where
  "handle_remove s h = (case h of NoopHandle \<Rightarrow> (s, Return ()) | TrapHandle k \<Rightarrow> remove s k)"

definition handle_updateTabbableElements :: "dom \<Rightarrow> handle \<Rightarrow> dom \<times> unit result" where
  "handle_updateTabbableElements s h =
     (case h of NoopHandle \<Rightarrow> (s, Return ()) | TrapHandle k \<Rightarrow> updateTabbableElements s k)"

subsection \<open>Dynamic content\<close>

definition dialogSelectors :: "selector list" where
  "dialogSelectors =
     [Compound [AttrEq ''role'' ''dialog''],
      Compound [AttrEq ''role'' ''alertdialog''],
      Compound [Class ''modal'', AttrEq ''aria-modal'' ''true''],
      Compound [Class ''dialog'', AttrEq ''aria-modal'' ''true'']]"

definition handleDialog :: "options \<Rightarrow> dom \<Rightarrow> node \<Rightarrow> dom" where
  "handleDialog opts s dialog =
     (if \<not> isVisuallyHidden s dialog \<and> \<not> hasAttribute s dialog ''data-focus-trap-active''
      then (let s1 = setAttribute s dialog ''data-focus-trap-active'' ''true'';
                (s2, focusTrap) =
                  setupFocusTrap s1 (Some dialog)
                    \<lparr>optReturnFocusOnClose = Some (returnFocusOnDynamicContentClose opts),
                     optTriggerElement = None\<rparr>
            in case focusTrap of
                 TrapHandle k \<Rightarrow> s2\<lparr>observers := observers s2 @ [(dialog, DialogObserver k)]\<rparr>
               | NoopHandle \<Rightarrow> s2)
      else s)"

definition detectAndHandleDialogs :: "options \<Rightarrow> dom \<Rightarrow> node \<Rightarrow> dom" where
  "detectAndHandleDialogs opts s c =
     foldl (handleDialog opts) s (querySelectorAll s c dialogSelectors)"

definition processDynamicContent :: "options \<Rightarrow> dom \<Rightarrow> node \<Rightarrow> dom" where
  "processDynamicContent opts s c =
     (let s1 = (if fixNegativeTabindex opts then fixNegativeTabindexValues s c else s);
          s2 = (if fixHighTabindex opts then fixHighTabindexValues s1 c else s1);
          s3 = (if ensureInteractiveElements opts then makeInteractiveElementsTabbable s2 c else s2);
          s4 = validateNonInteractiveElements s3 c
      in detectAndHandleDialogs opts s4 c)"

definition setupMutationObserver :: "dom \<Rightarrow> node \<Rightarrow> dom" where
  "setupMutationObserver s c = s\<lparr>observers := observers s @ [(c, ContainerObserver)]\<rparr>"

definition dynamicContentEvents :: "string list" where
  "dynamicContentEvents =
     [''ajaxComplete'', ''ajax:success'', ''htmx:afterSwap'', ''load-complete'',
      ''content-update'', ''dialog:opened'', ''modal:opened'', ''pagination-complete'']"

definition setupDynamicContentHandlers :: "dom \<Rightarrow> dom" where
  "setupDynamicContentHandlers s =
     (let s1 = foldl (\<lambda>s eventName. addEventListener s Document eventName DynamicContentEvent)
                 s dynamicContentEvents
      in s1\<lparr>xhrPatches := Suc (xhrPatches s1)\<rparr>)"

subsection \<open>Wizards, tooltips and dropdowns\<close>

definition wizardSelectors :: "selector list" where
  "wizardSelectors =
     [Compound [Class ''wizard''], Compound [Class ''stepper''],
      Compound [AttrEq ''role'' ''tablist''], Compound [Class ''multi-step-form''],
      Compound [Class ''form-wizard''], Compound [Class ''step-progress'']]"

definition stepSelectors :: "selector list" where
  "stepSelectors =
     [Compound [Class ''step''], Compound [Class ''wizard-step''],
      Compound [Class ''form-step''], Compound [AttrEq ''role'' ''tab''],
      Compound [Class ''step-indicator'']]"

definition nextButtonSelectors :: "selector list" where
  "nextButtonSelectors =
     [Compound [Class ''next-step''], Compound [Class ''btn-next''],
      Compound [AttrEq ''data-action'' ''next''], Compound [Class ''wizard-next'']]"

definition setupWizardNavigationSupport :: "dom \<Rightarrow> node \<Rightarrow> dom" where
  "setupWizardNavigationSupport s c =
     foldl (\<lambda>s wizard.
              let steps = querySelectorAll s wizard stepSelectors;
                  nextButtons = querySelectorAll s wizard nextButtonSelectors;
                  s1 = foldl (\<lambda>s button.
                                addEventListener s (Element button) ''click'' (WizardNextClick wizard))
                         s nextButtons
              in foldl (\<lambda>s step.
                          addEventListener s (Element step) ''keydown'' (WizardStepKeyDown wizard))
                   s1 steps)
       s (querySelectorAll s c wizardSelectors)"

definition tooltipSelectors :: "selector list" where
  "tooltipSelectors =
     [Compound [HasAttr ''data-tooltip''], Compound [AttrEq ''data-toggle'' ''tooltip''],
      Compound [HasAttr ''aria-describedby''], Compound [AttrEq ''role'' ''tooltip''],
      Compound [Class ''tooltip-trigger'']]"

definition dropdownSelectors :: "selector list" where
  "dropdownSelectors =
     [Compound [Class ''dropdown-toggle''], Compound [AttrEq ''data-toggle'' ''dropdown''],
      Compound [AttrEq ''aria-haspopup'' ''true''],
      Child [Class ''has-dropdown''] [Tag ''a'']]"

definition keyboardTrigger :: "string \<Rightarrow> listener \<Rightarrow> dom \<Rightarrow> node \<Rightarrow> dom" where
  "keyboardTrigger marker l s trigger =
     (let s1 = (if \<not> hasAttribute s trigger ''tabindex''
                then setAttribute s trigger ''tabindex'' ''0'' else s)
      in if \<not> hasAttribute s1 trigger marker
         then addEventListener (setAttribute s1 trigger marker ''true'')
                (Element trigger) ''keydown'' l
         else s1)"

definition setupTooltipAndDropdownHandlers :: "dom \<Rightarrow> node \<Rightarrow> dom" where
  "setupTooltipAndDropdownHandlers s c =
     (let s1 = foldl (keyboardTrigger ''data-tooltip-keyboard-handled'' TooltipKeyDown)
                 s (querySelectorAll s c tooltipSelectors)
      in foldl (keyboardTrigger ''data-dropdown-keyboard-handled'' DropdownKeyDown)
           s1 (querySelectorAll s1 c dropdownSelectors))"

subsection \<open>The scan\<close>

text \<open>
  The method \<open>fix()\<close> of the source; \<open>fix\<close> is a reserved word here. A container
  selector that matches nothing is reported on the console and ends the call.
  \<open>analyzeTabOrder\<close> only logs its result, so the document is passed on as it is.
\<close>

definition fix_all :: "options \<Rightarrow> dom \<Rightarrow> dom" where
  "fix_all opts s =
     (case document_querySelector s (container opts) of
        None \<Rightarrow> s
      | Some c \<Rightarrow>
          (let s1 = (if fixNegativeTabindex opts then fixNegativeTabindexValues s c else s);
               s2 = (if fixHighTabindex opts then fixHighTabindexValues s1 c else s1);
               s3 = (if ensureInteractiveElements opts
                     then makeInteractiveElementsTabbable s2 c else s2);
               s4 = validateNonInteractiveElements s3 c;
               logged = analyzeTabOrder s4 c;
               s5 = (if enableMutationObserver opts then setupMutationObserver s4 c else s4);
               s6 = (if enableDynamicContentSupport opts
                     then setupDynamicContentHandlers s5 else s5);
               s7 = (if supportWizardNavigation opts
                     then setupWizardNavigationSupport s6 c else s6)
           in if handleTooltipsAndDropdowns opts
              then setupTooltipAndDropdownHandlers s7 c else s7))"

subsection \<open>Calls with an absent argument\<close>

text \<open>
  The functions above take an element. A caller outside the class may pass \<open>null\<close> or
  \<open>undefined\<close> instead: \<open>window.getComputedStyle(null)\<close> and the property access
  \<open>element.parentElement\<close> both raise a \<open>TypeError\<close>, since neither function tests
  its argument.
\<close>

definition call_isVisuallyHidden :: "dom \<Rightarrow> node option \<Rightarrow> bool result" where
  "call_isVisuallyHidden s element =
     (case element of
        None \<Rightarrow> Throw TypeError
      | Some e \<Rightarrow> Return (isVisuallyHidden s e))"

definition call_hasHiddenParent :: "dom \<Rightarrow> node option \<Rightarrow> bool result" where
  "call_hasHiddenParent s element =
     (case element of
        None \<Rightarrow> Throw TypeError
      | Some e \<Rightarrow> Return (hasHiddenParent s e))"

section \<open>Example documents\<close>

definition visibleStyle :: css where
  "visibleStyle =
     \<lparr>display = ''block'', visibility = ''visible'', opacity = ''1'',
      position = ''static'', width = ''100px'', height = ''20px'', overflow = ''visible''\<rparr>"

definition page ::
  "node list \<Rightarrow> (node \<Rightarrow> string) \<Rightarrow> (node \<Rightarrow> string list) \<Rightarrow>
   (node \<Rightarrow> string \<Rightarrow> string option) \<Rightarrow> dom" where
  "page ns tags cls attrs =
     \<lparr>nodes = ns, tagName = tags, classList = cls, computedStyle = (\<lambda>_. visibleStyle),
      attributes = attrs, activeElement = None, listeners = [], timers = [],
      observers = [], traps = [], clicked = [], xhrPatches = 0\<rparr>"

text \<open>A body with a link \<open>a href="#" tabindex="-1"\<close> and a \<open>div tabindex="5"\<close>.\<close>

definition scenario :: dom where
  "scenario =
     page [[], [0], [0, 0], [1, 0]]
       (\<lambda>n. if n = [] then ''html'' else if n = [0] then ''body''
             else if n = [0, 0] then ''a'' else ''div'')
       (\<lambda>_. [])
       (\<lambda>n. if n = [0, 0] then [''href'' \<mapsto> ''#'', ''tabindex'' \<mapsto> ''-1'']
             else if n = [1, 0] then [''tabindex'' \<mapsto> ''5'']
             else Map.empty)"

text \<open>A body with a link \<open>a href="#" tabindex="-2"\<close>.\<close>

definition negativeDoc :: dom where
  "negativeDoc =
     page [[], [0], [0, 0]]
       (\<lambda>n. if n = [] then ''html'' else if n = [0] then ''body'' else ''a'')
       (\<lambda>_. [])
       (\<lambda>n. if n = [0, 0] then [''href'' \<mapsto> ''#'', ''tabindex'' \<mapsto> ''-2''] else Map.empty)"

text \<open>A body with an empty \<open>div class="modal" aria-modal="true"\<close>.\<close>

definition modalDoc :: dom where
  "modalDoc =
     page [[], [0], [0, 0]]
       (\<lambda>n. if n = [] then ''html'' else if n = [0] then ''body'' else ''div'')
       (\<lambda>n. if n = [0, 0] then [''modal''] else [])
       (\<lambda>n. if n = [0, 0] then [''aria-modal'' \<mapsto> ''true''] else Map.empty)"

text \<open>A body with a link \<open>a href="#"\<close> followed by a \<open>div tabindex="0"\<close>.\<close>

definition orderDoc :: dom where
  "orderDoc =
     page [[], [0], [0, 0], [1, 0]]
       (\<lambda>n. if n = [] then ''html'' else if n = [0] then ''body''
             else if n = [0, 0] then ''a'' else ''div'')
       (\<lambda>_. [])
       (\<lambda>n. if n = [0, 0] then [''href'' \<mapsto> ''#'']
             else if n = [1, 0] then [''tabindex'' \<mapsto> ''0'']
             else Map.empty)"

text \<open>A body with a \<open>div role="dialog"\<close> that holds three buttons.\<close>

definition trapDoc :: dom where
  "trapDoc =
     page [[], [0], [0, 0], [0, 0, 0], [1, 0, 0], [2, 0, 0]]
       (\<lambda>n. if n = [] then ''html'' else if n = [0] then ''body''
             else if n = [0, 0] then ''div'' else ''button'')
       (\<lambda>_. [])
       (\<lambda>n. if n = [0, 0] then [''role'' \<mapsto> ''dialog''] else Map.empty)"

text \<open>
  An element outside any document: it has no parent, and browsers report the empty string
  for every property of its computed style.
\<close>

definition emptyStyle :: css where
  "emptyStyle =
     \<lparr>display = '''', visibility = '''', opacity = '''', position = '''', width = '''',
      height = '''', overflow = ''''\<rparr>"

definition detachedDoc :: dom where
  "detachedDoc =
     (page [] (\<lambda>_. ''button'') (\<lambda>_. []) (\<lambda>_. Map.empty))\<lparr>computedStyle := (\<lambda>_. emptyStyle)\<rparr>"



text \<open>A body with a \<open>div class="accordion-header"\<close>.\<close>

definition accordionDoc :: dom where
  "accordionDoc =
     page [[], [0], [0, 0]]
       (\<lambda>n. if n = [] then ''html'' else if n = [0] then ''body'' else ''div'')
       (\<lambda>n. if n = [0, 0] then [''accordion-header''] else [])
       (\<lambda>_. Map.empty)"

text \<open>A body with a \<open>div role="button" tabindex="abc"\<close>.\<close>

definition nanDoc :: dom where
  "nanDoc =
     page [[], [0], [0, 0]]
       (\<lambda>n. if n = [] then ''html'' else if n = [0] then ''body'' else ''div'')
       (\<lambda>_. [])
       (\<lambda>n. if n = [0, 0] then [''role'' \<mapsto> ''button'', ''tabindex'' \<mapsto> ''abc'']
             else Map.empty)"

text \<open>A body with a \<open>div aria-hidden="true"\<close> that holds a button.\<close>

definition hiddenDoc :: dom where
  "hiddenDoc =
     page [[], [0], [0, 0], [0, 0, 0]]
       (\<lambda>n. if n = [] then ''html'' else if n = [0] then ''body''
             else if n = [0, 0] then ''div'' else ''button'')
       (\<lambda>_. [])
       (\<lambda>n. if n = [0, 0] then [''aria-hidden'' \<mapsto> ''true''] else Map.empty)"

definition noTrapOptions :: trapOptions where
  "noTrapOptions = \<lparr>optReturnFocusOnClose = None, optTriggerElement = None\<rparr>"

section \<open>Notions used in the proofs\<close>

text \<open>
  The scan writes four attributes: \<open>tabindex\<close> and three markers. Two documents
  \<open>agree\<close> when they differ at most in those; a selector is static when it reads none
  of them. \<open>tab\<close> is the \<open>tabindex\<close> attribute of a node, and \<open>P1\<close> to \<open>P4\<close> are what
  the four passes do to it, given whether the pass applies to the node.
\<close>

definition writtenAttributes :: "string list" where
  "writtenAttributes = [''tabindex'', ''data-tooltip-keyboard-handled'',
              ''data-dropdown-keyboard-handled'', ''data-focus-trap-active'']"

definition agree :: "dom \<Rightarrow> dom \<Rightarrow> bool" where
  "agree s s' =
     (nodes s = nodes s' \<and> tagName s = tagName s' \<and> classList s = classList s' \<and>
      computedStyle s = computedStyle s' \<and>
      (\<forall>e a. a \<notin> set writtenAttributes \<longrightarrow> attributes s e a = attributes s' e a))"

fun simpleStatic :: "simple \<Rightarrow> bool" where
  "simpleStatic (Tag t) = True"
| "simpleStatic (Class c) = True"
| "simpleStatic (HasAttr a) = (a \<notin> set writtenAttributes)"
| "simpleStatic (AttrEq a v) = (a \<notin> set writtenAttributes)"
| "simpleStatic (NotS x) = simpleStatic x"

fun selectorStatic :: "selector \<Rightarrow> bool" where
  "selectorStatic (Compound cs) = list_all simpleStatic cs"
| "selectorStatic (Descendant as cs) = (list_all simpleStatic as \<and> list_all simpleStatic cs)"
| "selectorStatic (Child as cs) = (list_all simpleStatic as \<and> list_all simpleStatic cs)"

definition tab :: "dom \<Rightarrow> node \<Rightarrow> string option" where
  "tab s e = attributes s e ''tabindex''"

definition inScope :: "dom \<Rightarrow> node \<Rightarrow> node \<Rightarrow> bool" where
  "inScope s c n = (n \<in> set (nodes s) \<and> inside c n)"

definition parseOpt :: "string option \<Rightarrow> int option" where
  "parseOpt t = (case t of None \<Rightarrow> None | Some v \<Rightarrow> parseInt v)"

definition P1 :: "bool \<Rightarrow> string option \<Rightarrow> string option" where
  "P1 b t = (if b \<and> t = Some ''-1'' then Some ''0'' else t)"

definition P2 :: "bool \<Rightarrow> string option \<Rightarrow> string option" where
  "P2 b t = (if b \<and> gt0 (parseOpt t) then Some ''0'' else t)"

definition P3 :: "bool \<Rightarrow> string option \<Rightarrow> string option" where
  "P3 b t = (if b \<and> t = None then Some ''0'' else t)"

definition P4 :: "bool \<Rightarrow> string option \<Rightarrow> string option" where
  "P4 b t = (if b \<and> ge0 (parseOpt t) then None else t)"

definition nonInteractiveTag :: "dom \<Rightarrow> node \<Rightarrow> bool" where
  "nonInteractiveTag s e =
     (tagName s e \<in> set [''div'', ''span'', ''p'', ''h1'', ''h2'', ''h3'', ''h4'', ''h5'', ''h6''])"

definition tree :: "dom \<Rightarrow> node list \<times> (node \<Rightarrow> string) \<times> (node \<Rightarrow> string list) \<times>
    (node \<Rightarrow> css) \<times> (node \<Rightarrow> string \<Rightarrow> string option)" where
  "tree s = (nodes s, tagName s, classList s, computedStyle s, attributes s)"

definition passes :: "options \<Rightarrow> dom \<Rightarrow> node \<Rightarrow> dom" where
  "passes opts s c =
     (let s1 = (if fixNegativeTabindex opts then fixNegativeTabindexValues s c else s);
          s2 = (if fixHighTabindex opts then fixHighTabindexValues s1 c else s1);
          s3 = (if ensureInteractiveElements opts then makeInteractiveElementsTabbable s2 c else s2)
      in validateNonInteractiveElements s3 c)"

definition passesTab :: "options \<Rightarrow> dom \<Rightarrow> node \<Rightarrow> node \<Rightarrow> string option \<Rightarrow> string option" where
  "passesTab opts s c n t =
     P4 (inScope s c n \<and> nonInteractiveTag s n \<and> \<not> hasAttribute s n ''role'' \<and>
         \<not> hasKeyboardEventListeners s n)
       (P3 (ensureInteractiveElements opts \<and> inScope s c n \<and> isInteractiveElement s n \<and>
            \<not> (isVisuallyHidden s n \<or> hasHiddenParent s n))
          (P2 (fixHighTabindex opts \<and> inScope s c n)
             (P1 (fixNegativeTabindex opts \<and> inScope s c n \<and> isInteractiveElement s n \<and>
                  \<not> shouldBeRemovedFromTabOrder s n) t)))"

definition triggersTab :: "options \<Rightarrow> dom \<Rightarrow> node \<Rightarrow> node \<Rightarrow> string option \<Rightarrow> string option" where
  "triggersTab opts s c n t =
     P3 (handleTooltipsAndDropdowns opts \<and> inScope s c n \<and> matchesAny s n dropdownSelectors)
       (P3 (handleTooltipsAndDropdowns opts \<and> inScope s c n \<and> matchesAny s n tooltipSelectors) t)"

definition observe :: "options \<Rightarrow> dom \<Rightarrow> node \<Rightarrow> dom" where
  "observe opts s4 c =
     (let s5 = (if enableMutationObserver opts then setupMutationObserver s4 c else s4);
          s6 = (if enableDynamicContentSupport opts then setupDynamicContentHandlers s5 else s5)
      in if supportWizardNavigation opts then setupWizardNavigationSupport s6 c else s6)"

section \<open>What a scan does to one node\<close>

lemma agree_refl: "agree s s"
  by (simp add: agree_def)

lemma agree_sym: "agree s s' \<Longrightarrow> agree s' s"
  by (simp add: agree_def)

lemma agree_trans: "agree s s' \<Longrightarrow> agree s' s'' \<Longrightarrow> agree s s''"
  by (simp add: agree_def)

lemma agree_setAttribute: "a \<in> set writtenAttributes \<Longrightarrow> agree s (setAttribute s e a v)"
  by (auto simp: agree_def setAttribute_def)

lemma agree_removeAttribute: "a \<in> set writtenAttributes \<Longrightarrow> agree s (removeAttribute s e a)"
  by (auto simp: agree_def removeAttribute_def)

lemma agree_addEventListener: "agree s (addEventListener s t ev l)"
  by (simp add: agree_def addEventListener_def)

lemma agree_setTimeout: "agree s (setTimeout s t ms)"
  by (simp add: agree_def setTimeout_def)

lemma agree_attr: "agree s s' \<Longrightarrow> a \<notin> set writtenAttributes \<Longrightarrow> attributes s e a = attributes s' e a"
  by (simp add: agree_def)

lemma agree_matchesSimple:
  "agree s s' \<Longrightarrow> simpleStatic x \<Longrightarrow> matchesSimple s e x = matchesSimple s' e x"
  by (induction x) (auto simp: agree_def)

lemma agree_matchesCompound:
  "agree s s' \<Longrightarrow> list_all simpleStatic cs \<Longrightarrow> matchesCompound s e cs = matchesCompound s' e cs"
  unfolding matchesCompound_def
  by (induction cs) (auto simp: agree_matchesSimple)

lemma agree_hasAncestor:
  "agree s s' \<Longrightarrow> list_all simpleStatic cs \<Longrightarrow> hasAncestor s cs e = hasAncestor s' cs e"
  by (induction e) (auto simp: agree_matchesCompound)

lemma agree_matches:
  "agree s s' \<Longrightarrow> selectorStatic x \<Longrightarrow> matches s e x = matches s' e x"
  by (cases x) (auto simp: agree_matchesCompound agree_hasAncestor split: option.splits)

lemma agree_matchesAny:
  "agree s s' \<Longrightarrow> list_all selectorStatic sels \<Longrightarrow> matchesAny s e sels = matchesAny s' e sels"
  unfolding matchesAny_def
  by (induction sels) (auto simp: agree_matches)

lemma agree_querySelectorAll:
  "agree s s' \<Longrightarrow> list_all selectorStatic sels \<Longrightarrow>
   querySelectorAll s c sels = querySelectorAll s' c sels"
  unfolding querySelectorAll_def
  using agree_matchesAny [of s s' sels] by (simp add: agree_def cong: filter_cong)

lemma interactiveSelectors_static: "list_all selectorStatic interactiveSelectors"
  by (simp add: interactiveSelectors_def writtenAttributes_def)

lemma agree_isInteractiveElement:
  "agree s s' \<Longrightarrow> isInteractiveElement s e = isInteractiveElement s' e"
  using agree_matchesAny [OF _ interactiveSelectors_static]
  by (simp add: isInteractiveElement_def matchesAny_def)

lemma agree_isVisuallyHidden: "agree s s' \<Longrightarrow> isVisuallyHidden s e = isVisuallyHidden s' e"
  by (simp add: isVisuallyHidden_def agree_def)

lemma agree_hasHiddenParent: "agree s s' \<Longrightarrow> hasHiddenParent s e = hasHiddenParent s' e"
  by (induction e) (auto simp: agree_isVisuallyHidden getAttribute_def agree_attr writtenAttributes_def)

lemma agree_shouldBeRemoved:
  "agree s s' \<Longrightarrow> shouldBeRemovedFromTabOrder s e = shouldBeRemovedFromTabOrder s' e"
  using agree_attr [of s s' "''aria-hidden''" e]
  by (simp add: shouldBeRemovedFromTabOrder_def agree_isVisuallyHidden [of s s']
      agree_hasHiddenParent [of s s'] getAttribute_def writtenAttributes_def)

lemma agree_hasRole: "agree s s' \<Longrightarrow> hasAttribute s e ''role'' = hasAttribute s' e ''role''"
  using agree_attr [of s s' "''role''" e] by (simp add: hasAttribute_def writtenAttributes_def)

lemma agree_hasKeyboard:
  "agree s s' \<Longrightarrow> hasKeyboardEventListeners s e = hasKeyboardEventListeners s' e"
  using agree_attr [of s s' "''onkeydown''" e] agree_attr [of s s' "''onkeyup''" e]
    agree_attr [of s s' "''onkeypress''" e]
  by (simp add: hasKeyboardEventListeners_def hasAttribute_def writtenAttributes_def)

lemma foldl_local:
  assumes ag: "\<And>s e. agree s (step s e)"
    and st: "\<And>s e n. tab (step s e) n = (if n = e then F s e (tab s e) else tab s n)"
    and Fa: "\<And>s s' e. agree s s' \<Longrightarrow> F s e = F s' e"
    and Fi: "\<And>s e t. F s e (F s e t) = F s e t"
  shows "agree s (foldl step s xs) \<and>
         tab (foldl step s xs) n = (if n \<in> set xs then F s n (tab s n) else tab s n)"
proof (induction xs arbitrary: s)
  case Nil
  show ?case by (simp add: agree_refl)
next
  case (Cons x xs)
  have a1: "agree s (step s x)" by (rule ag)
  from Cons.IH [of "step s x"]
  have a2: "agree (step s x) (foldl step (step s x) xs)"
    and t2: "tab (foldl step (step s x) xs) n =
             (if n \<in> set xs then F (step s x) n (tab (step s x) n) else tab (step s x) n)"
    by simp_all
  have F': "\<And>m. F (step s x) m = F s m" using Fa [OF a1] by simp
  show ?case
    using agree_trans [OF a1 a2] t2 by (simp add: F' st Fi)
qed

lemma parseInt_0: "parseInt ''0'' = Some 0"
  by (simp add: parseInt_def isWhiteSpace_def digitValue_def toDouble_def)

lemma parseInt_m1: "parseInt ''-1'' = Some (- 1)"
  by (simp add: parseInt_def isWhiteSpace_def digitValue_def toDouble_def)

lemma tabindexOf_tab: "tabindexOf s e = parseOpt (tab s e)"
  by (simp add: tabindexOf_def parseOpt_def tab_def getAttribute_def)

lemma tab_setAttribute:
  "tab (setAttribute s e a v) n = (if n = e \<and> a = ''tabindex'' then Some v else tab s n)"
  by (simp add: tab_def setAttribute_def)

lemma tab_removeAttribute:
  "tab (removeAttribute s e a) n = (if n = e \<and> a = ''tabindex'' then None else tab s n)"
  by (simp add: tab_def removeAttribute_def)

lemma in_querySelectorAll:
  "n \<in> set (querySelectorAll s c sels) \<longleftrightarrow> inScope s c n \<and> matchesAny s n sels"
  by (auto simp: querySelectorAll_def inScope_def)

lemma agree_inScope: "agree s s' \<Longrightarrow> inScope s c n = inScope s' c n"
  by (simp add: inScope_def agree_def)

lemma agree_nonInteractiveTag: "agree s s' \<Longrightarrow> nonInteractiveTag s e = nonInteractiveTag s' e"
  by (simp add: nonInteractiveTag_def agree_def)

lemma fixNegative_local:
  "agree s (fixNegativeTabindexValues s c) \<and>
   tab (fixNegativeTabindexValues s c) n =
     P1 (inScope s c n \<and> isInteractiveElement s n \<and> \<not> shouldBeRemovedFromTabOrder s n) (tab s n)"
proof -
  define step where "step = (\<lambda>s element.
     if isInteractiveElement s element \<and> \<not> shouldBeRemovedFromTabOrder s element
     then setAttribute s element ''tabindex'' ''0'' else s)"
  define F where "F = (\<lambda>s e (t::string option).
     if isInteractiveElement s e \<and> \<not> shouldBeRemovedFromTabOrder s e then Some ''0'' else t)"
  have ag: "\<And>s e. agree s (step s e)"
    by (simp add: step_def agree_refl agree_setAttribute writtenAttributes_def)
  have st: "\<And>s e n. tab (step s e) n = (if n = e then F s e (tab s e) else tab s n)"
    by (simp add: step_def F_def tab_setAttribute)
  have Fa: "\<And>s s' e. agree s s' \<Longrightarrow> F s e = F s' e"
    by (simp add: F_def agree_isInteractiveElement agree_shouldBeRemoved)
  have Fi: "\<And>s e t. F s e (F s e t) = F s e t"
    by (simp add: F_def)
  have sel: "n \<in> set (querySelectorAll s c [Compound [AttrEq ''tabindex'' ''-1'']]) \<longleftrightarrow>
             inScope s c n \<and> tab s n = Some ''-1''"
    by (simp add: in_querySelectorAll matchesAny_def matchesCompound_def tab_def)
  have "fixNegativeTabindexValues s c =
        foldl step s (querySelectorAll s c [Compound [AttrEq ''tabindex'' ''-1'']])"
    by (simp add: fixNegativeTabindexValues_def step_def)
  then show ?thesis
    using foldl_local [of step F, OF ag st Fa Fi,
        of s "querySelectorAll s c [Compound [AttrEq ''tabindex'' ''-1'']]" n]
    by (auto simp: sel F_def P1_def)
qed

lemma fixHigh_local:
  "agree s (fixHighTabindexValues s c) \<and>
   tab (fixHighTabindexValues s c) n = P2 (inScope s c n) (tab s n)"
proof -
  define step where "step = (\<lambda>s element.
     if gt0 (tabindexOf s element) then setAttribute s element ''tabindex'' ''0'' else s)"
  define F where "F = (\<lambda>(s::dom) (e::node) (t::string option).
     if gt0 (parseOpt t) then Some ''0'' else t)"
  have ag: "\<And>s e. agree s (step s e)"
    by (simp add: step_def agree_refl agree_setAttribute writtenAttributes_def)
  have st: "\<And>s e n. tab (step s e) n = (if n = e then F s e (tab s e) else tab s n)"
    by (simp add: step_def F_def tab_setAttribute tabindexOf_tab)
  have Fa: "\<And>s s' e. agree s s' \<Longrightarrow> F s e = F s' e"
    by (simp add: F_def)
  have Fi: "\<And>s e t. F s e (F s e t) = F s e t"
    by (simp add: F_def parseOpt_def parseInt_0 gt0_def)
  have sel: "n \<in> set (querySelectorAll s c [Compound [HasAttr ''tabindex'']]) \<longleftrightarrow>
             inScope s c n \<and> tab s n \<noteq> None"
    by (simp add: in_querySelectorAll matchesAny_def matchesCompound_def tab_def)
  have "fixHighTabindexValues s c =
        foldl step s (querySelectorAll s c [Compound [HasAttr ''tabindex'']])"
    by (simp add: fixHighTabindexValues_def step_def)
  then show ?thesis
    using foldl_local [of step F, OF ag st Fa Fi,
        of s "querySelectorAll s c [Compound [HasAttr ''tabindex'']]" n]
    by (auto simp: sel F_def P2_def parseOpt_def gt0_def)
qed

lemma makeInteractive_local:
  "agree s (makeInteractiveElementsTabbable s c) \<and>
   tab (makeInteractiveElementsTabbable s c) n =
     P3 (inScope s c n \<and> isInteractiveElement s n \<and>
         \<not> (isVisuallyHidden s n \<or> hasHiddenParent s n)) (tab s n)"
proof -
  define step where "step = (\<lambda>s element.
     if isVisuallyHidden s element \<or> hasHiddenParent s element then s
     else if \<not> hasAttribute s element ''tabindex''
     then setAttribute s element ''tabindex'' ''0'' else s)"
  define F where "F = (\<lambda>s e (t::string option).
     if isVisuallyHidden s e \<or> hasHiddenParent s e then t
     else if t = None then Some ''0'' else t)"
  have ag: "\<And>s e. agree s (step s e)"
    by (simp add: step_def agree_refl agree_setAttribute writtenAttributes_def)
  have st: "\<And>s e n. tab (step s e) n = (if n = e then F s e (tab s e) else tab s n)"
    by (simp add: step_def F_def tab_setAttribute hasAttribute_def tab_def [symmetric])
  have Fa: "\<And>s s' e. agree s s' \<Longrightarrow> F s e = F s' e"
    by (simp add: F_def agree_isVisuallyHidden agree_hasHiddenParent)
  have Fi: "\<And>s e t. F s e (F s e t) = F s e t"
    by (simp add: F_def)
  have sel: "n \<in> set (querySelectorAll s c interactiveSelectors) \<longleftrightarrow>
             inScope s c n \<and> isInteractiveElement s n"
    by (simp add: in_querySelectorAll matchesAny_def isInteractiveElement_def)
  have "makeInteractiveElementsTabbable s c =
        foldl step s (querySelectorAll s c interactiveSelectors)"
    by (simp add: makeInteractiveElementsTabbable_def step_def)
  then show ?thesis
    using foldl_local [of step F, OF ag st Fa Fi,
        of s "querySelectorAll s c interactiveSelectors" n]
    by (auto simp: sel F_def P3_def)
qed

lemma matches_nonInteractive:
  "matchesAny s n nonInteractiveWithTabindex \<longleftrightarrow> nonInteractiveTag s n \<and> tab s n \<noteq> None"
  by (simp add: matchesAny_def nonInteractiveWithTabindex_def matchesCompound_def
      nonInteractiveTag_def tab_def; blast)

lemma validate_local:
  "agree s (validateNonInteractiveElements s c) \<and>
   tab (validateNonInteractiveElements s c) n =
     P4 (inScope s c n \<and> nonInteractiveTag s n \<and> \<not> hasAttribute s n ''role'' \<and>
         \<not> hasKeyboardEventListeners s n) (tab s n)"
proof -
  define step where "step = (\<lambda>s element.
     if ge0 (tabindexOf s element) \<and> \<not> hasAttribute s element ''role''
     then (if \<not> hasKeyboardEventListeners s element
           then removeAttribute s element ''tabindex'' else s)
     else s)"
  define F where "F = (\<lambda>s e (t::string option).
     if ge0 (parseOpt t) \<and> \<not> hasAttribute s e ''role'' \<and> \<not> hasKeyboardEventListeners s e
     then None else t)"
  have ag: "\<And>s e. agree s (step s e)"
    by (simp add: step_def agree_refl agree_removeAttribute writtenAttributes_def)
  have st: "\<And>s e n. tab (step s e) n = (if n = e then F s e (tab s e) else tab s n)"
    by (simp add: step_def F_def tab_removeAttribute tabindexOf_tab)
  have Fa: "\<And>s s' e. agree s s' \<Longrightarrow> F s e = F s' e"
    by (simp add: F_def agree_hasRole agree_hasKeyboard)
  have Fi: "\<And>s e t. F s e (F s e t) = F s e t"
    by (simp add: F_def parseOpt_def ge0_def)
  have sel: "n \<in> set (querySelectorAll s c nonInteractiveWithTabindex) \<longleftrightarrow>
             inScope s c n \<and> nonInteractiveTag s n \<and> tab s n \<noteq> None"
    by (simp add: in_querySelectorAll matches_nonInteractive)
  have "validateNonInteractiveElements s c =
        foldl step s (querySelectorAll s c nonInteractiveWithTabindex)"
    by (simp add: validateNonInteractiveElements_def step_def)
  then show ?thesis
    using foldl_local [of step F, OF ag st Fa Fi,
        of s "querySelectorAll s c nonInteractiveWithTabindex" n]
    by (auto simp: sel F_def P4_def parseOpt_def ge0_def)
qed

lemma P_False [simp]: "P1 False t = t" "P2 False t = t" "P3 False t = t" "P4 False t = t"
  by (simp_all add: P1_def P2_def P3_def P4_def)

lemma agree_passesTab: "agree s s' \<Longrightarrow> passesTab opts s c n = passesTab opts s' c n"
  by (simp add: passesTab_def fun_eq_iff agree_inScope [of s s'] agree_nonInteractiveTag [of s s']
      agree_hasRole [of s s'] agree_hasKeyboard [of s s'] agree_isInteractiveElement [of s s']
      agree_isVisuallyHidden [of s s'] agree_hasHiddenParent [of s s']
      agree_shouldBeRemoved [of s s'])

lemma tooltipSelectors_static: "list_all selectorStatic tooltipSelectors"
  by (simp add: tooltipSelectors_def writtenAttributes_def)

lemma dropdownSelectors_static: "list_all selectorStatic dropdownSelectors"
  by (simp add: dropdownSelectors_def writtenAttributes_def)

lemma agree_triggersTab: "agree s s' \<Longrightarrow> triggersTab opts s c n = triggersTab opts s' c n"
  by (simp add: triggersTab_def fun_eq_iff agree_inScope [of s s']
      agree_matchesAny [OF _ tooltipSelectors_static, of s s']
      agree_matchesAny [OF _ dropdownSelectors_static, of s s'])

lemma passes_local:
  "agree s (passes opts s c) \<and> tab (passes opts s c) n = passesTab opts s c n (tab s n)"
proof -
  define s1 where "s1 = (if fixNegativeTabindex opts then fixNegativeTabindexValues s c else s)"
  define s2 where "s2 = (if fixHighTabindex opts then fixHighTabindexValues s1 c else s1)"
  define s3 where "s3 = (if ensureInteractiveElements opts
                         then makeInteractiveElementsTabbable s2 c else s2)"
  define s4 where "s4 = validateNonInteractiveElements s3 c"
  have a1: "agree s s1"
    and t1: "tab s1 n = P1 (fixNegativeTabindex opts \<and> inScope s c n \<and> isInteractiveElement s n \<and>
                  \<not> shouldBeRemovedFromTabOrder s n) (tab s n)"
    using fixNegative_local [of s c n] by (simp_all add: s1_def agree_refl)
  have a12: "agree s1 s2"
    and t2': "tab s2 n = P2 (fixHighTabindex opts \<and> inScope s1 c n) (tab s1 n)"
    using fixHigh_local [of s1 c n] by (simp_all add: s2_def agree_refl)
  have a2: "agree s s2" using a1 a12 by (rule agree_trans)
  have a23: "agree s2 s3"
    and t3': "tab s3 n = P3 (ensureInteractiveElements opts \<and> inScope s2 c n \<and>
                 isInteractiveElement s2 n \<and> \<not> (isVisuallyHidden s2 n \<or> hasHiddenParent s2 n))
               (tab s2 n)"
    using makeInteractive_local [of s2 c n] by (simp_all add: s3_def agree_refl)
  have a3: "agree s s3" using a2 a23 by (rule agree_trans)
  have a34: "agree s3 s4"
    and t4': "tab s4 n = P4 (inScope s3 c n \<and> nonInteractiveTag s3 n \<and>
                 \<not> hasAttribute s3 n ''role'' \<and> \<not> hasKeyboardEventListeners s3 n) (tab s3 n)"
    using validate_local [of s3 c n] by (simp_all add: s4_def)
  have a4: "agree s s4" using a3 a34 by (rule agree_trans)
  have e: "passes opts s c = s4"
    by (simp add: passes_def s4_def s3_def s2_def s1_def Let_def)
  have t2: "tab s2 n = P2 (fixHighTabindex opts \<and> inScope s c n) (tab s1 n)"
    using t2' by (simp add: agree_inScope [OF a1])
  have t3: "tab s3 n = P3 (ensureInteractiveElements opts \<and> inScope s c n \<and>
                 isInteractiveElement s n \<and> \<not> (isVisuallyHidden s n \<or> hasHiddenParent s n))
               (tab s2 n)"
    using t3' by (simp add: agree_inScope [OF a2] agree_isInteractiveElement [OF a2]
        agree_isVisuallyHidden [OF a2] agree_hasHiddenParent [OF a2])
  have t4: "tab s4 n = P4 (inScope s c n \<and> nonInteractiveTag s n \<and>
                 \<not> hasAttribute s n ''role'' \<and> \<not> hasKeyboardEventListeners s n) (tab s3 n)"
    using t4' by (simp add: agree_inScope [OF a3] agree_nonInteractiveTag [OF a3]
        agree_hasRole [OF a3] agree_hasKeyboard [OF a3])
  show ?thesis
    unfolding e passesTab_def using a4 by (simp add: t4 t3 t2 t1)
qed

lemma keyboardTrigger_local:
  assumes m: "marker \<in> set writtenAttributes" "marker \<noteq> ''tabindex''"
  shows "agree s (foldl (keyboardTrigger marker l) s xs) \<and>
         tab (foldl (keyboardTrigger marker l) s xs) n = P3 (n \<in> set xs) (tab s n)"
proof -
  define F where "F = (\<lambda>(s::dom) (e::node) (t::string option). if t = None then Some ''0'' else t)"
  have ag: "\<And>s e. agree s (keyboardTrigger marker l s e)"
  proof -
    fix s e
    have 1: "agree s (if \<not> hasAttribute s e ''tabindex''
                      then setAttribute s e ''tabindex'' ''0'' else s)" (is "agree s ?s1")
      by (simp add: agree_refl agree_setAttribute writtenAttributes_def)
    have 2: "agree ?s1 (addEventListener (setAttribute ?s1 e marker ''true'')
                 (Element e) ''keydown'' l)"
      by (rule agree_trans [OF agree_setAttribute [OF m(1)] agree_addEventListener])
    show "agree s (keyboardTrigger marker l s e)"
      unfolding keyboardTrigger_def Let_def
      using 1 agree_trans [OF 1 2] by (simp split: if_splits)
  qed
  have st: "\<And>s e n. tab (keyboardTrigger marker l s e) n =
                      (if n = e then F s e (tab s e) else tab s n)"
    using m(2)
    by (auto simp: keyboardTrigger_def Let_def F_def tab_def hasAttribute_def
        setAttribute_def addEventListener_def)
  have Fa: "\<And>s s' e. agree s s' \<Longrightarrow> F s e = F s' e"
    by (simp add: F_def)
  have Fi: "\<And>s e t. F s e (F s e t) = F s e t"
    by (simp add: F_def)
  show ?thesis
    using foldl_local [of "keyboardTrigger marker l" F, OF ag st Fa Fi, of s xs n]
    by (simp add: F_def P3_def)
qed

lemma triggers_local:
  "agree s (setupTooltipAndDropdownHandlers s c) \<and>
   tab (setupTooltipAndDropdownHandlers s c) n =
     P3 (inScope s c n \<and> matchesAny s n dropdownSelectors)
       (P3 (inScope s c n \<and> matchesAny s n tooltipSelectors) (tab s n))"
proof -
  define s1 where "s1 = foldl (keyboardTrigger ''data-tooltip-keyboard-handled'' TooltipKeyDown)
                          s (querySelectorAll s c tooltipSelectors)"
  have a1: "agree s s1"
    and t1: "tab s1 n = P3 (inScope s c n \<and> matchesAny s n tooltipSelectors) (tab s n)"
    using keyboardTrigger_local [of "''data-tooltip-keyboard-handled''" s TooltipKeyDown
        "querySelectorAll s c tooltipSelectors" n]
    by (simp_all add: s1_def writtenAttributes_def in_querySelectorAll)
  have a2: "agree s1 (setupTooltipAndDropdownHandlers s c)"
    and t2: "tab (setupTooltipAndDropdownHandlers s c) n =
             P3 (inScope s1 c n \<and> matchesAny s1 n dropdownSelectors) (tab s1 n)"
    using keyboardTrigger_local [of "''data-dropdown-keyboard-handled''" s1 DropdownKeyDown
        "querySelectorAll s1 c dropdownSelectors" n]
    by (simp_all add: setupTooltipAndDropdownHandlers_def Let_def s1_def [symmetric]
        writtenAttributes_def in_querySelectorAll)
  show ?thesis
    using agree_trans [OF a1 a2] t2
    by (simp add: t1 agree_inScope [OF a1] agree_matchesAny [OF a1 dropdownSelectors_static])
qed

lemma foldl_tree: "(\<And>s x. tree (step s x) = tree s) \<Longrightarrow> tree (foldl step s xs) = tree s"
  by (induction xs arbitrary: s) simp_all

lemma tree_addEventListener [simp]: "tree (addEventListener s t ev l) = tree s"
  by (simp add: tree_def addEventListener_def)

lemma tree_agree: "tree s = tree s' \<Longrightarrow> agree s s'"
  by (simp add: tree_def agree_def)

lemma tree_tab: "tree s = tree s' \<Longrightarrow> tab s n = tab s' n"
  by (simp add: tree_def tab_def)

lemma tree_setupMutationObserver [simp]: "tree (setupMutationObserver s c) = tree s"
  by (simp add: tree_def setupMutationObserver_def)

lemma tree_setupDynamicContentHandlers [simp]: "tree (setupDynamicContentHandlers s) = tree s"
proof -
  have "tree (foldl (\<lambda>s eventName. addEventListener s Document eventName DynamicContentEvent)
                s dynamicContentEvents) = tree s"
    by (rule foldl_tree) simp
  then show ?thesis
    by (simp add: setupDynamicContentHandlers_def Let_def tree_def)
qed

lemma tree_setupWizardNavigationSupport [simp]: "tree (setupWizardNavigationSupport s c) = tree s"
  unfolding setupWizardNavigationSupport_def
  by (rule foldl_tree) (simp add: Let_def foldl_tree)

lemma tree_observe [simp]: "tree (observe opts s c) = tree s"
  by (simp add: observe_def Let_def)

lemma fix_all_unfold:
  "document_querySelector s (container opts) = Some c \<Longrightarrow>
   fix_all opts s =
     (if handleTooltipsAndDropdowns opts
      then setupTooltipAndDropdownHandlers (observe opts (passes opts s c) c) c
      else observe opts (passes opts s c) c)"
  by (simp add: fix_all_def passes_def observe_def Let_def)

lemma fix_all_local:
  assumes c: "document_querySelector s (container opts) = Some c"
  shows "agree s (fix_all opts s) \<and>
         tab (fix_all opts s) n = triggersTab opts s c n (passesTab opts s c n (tab s n))"
proof -
  define s4 where "s4 = passes opts s c"
  define s7 where "s7 = observe opts s4 c"
  have a4: "agree s s4" and t4: "tab s4 n = passesTab opts s c n (tab s n)"
    using passes_local [of s opts c n] by (simp_all add: s4_def)
  have tr: "tree s7 = tree s4" by (simp add: s7_def)
  have a7: "agree s s7" using a4 tree_agree [OF tr [symmetric]] by (rule agree_trans)
  have t7: "tab s7 n = passesTab opts s c n (tab s n)"
    using tree_tab [OF tr, of n] t4 by simp
  show ?thesis
  proof (cases "handleTooltipsAndDropdowns opts")
    case True
    have e: "fix_all opts s = setupTooltipAndDropdownHandlers s7 c"
      using fix_all_unfold [OF c] True by (simp add: s7_def s4_def)
    show ?thesis
      unfolding e using triggers_local [of s7 c n] agree_trans [OF a7, of "setupTooltipAndDropdownHandlers s7 c"]
      by (simp add: triggersTab_def True t7 agree_inScope [OF a7]
          agree_matchesAny [OF a7 dropdownSelectors_static]
          agree_matchesAny [OF a7 tooltipSelectors_static])
  next
    case False
    have e: "fix_all opts s = s7"
      using fix_all_unfold [OF c] False by (simp add: s7_def s4_def)
    show ?thesis
      unfolding e using a7 by (simp add: triggersTab_def False t7)
  qed
qed

lemma scan_idem:
  "P3 b6 (P3 b5 (P4 b4 (P3 b3 (P2 b2 (P1 b1
     (P3 b6 (P3 b5 (P4 b4 (P3 b3 (P2 b2 (P1 b1 t))))))))))) =
   P3 b6 (P3 b5 (P4 b4 (P3 b3 (P2 b2 (P1 b1 t)))))"
  by (cases t) (auto simp: P1_def P2_def P3_def P4_def parseOpt_def gt0_def ge0_def
      parseInt_0 parseInt_m1 split: option.splits)

lemma getAttribute_tab: "getAttribute s n ''tabindex'' = tab s n"
  by (simp add: getAttribute_def tab_def)

lemma default_flags [simp]:
  "fixNegativeTabindex defaultOptions" "fixHighTabindex defaultOptions"
  "ensureInteractiveElements defaultOptions" "handleTooltipsAndDropdowns defaultOptions"
  by (simp_all add: defaultOptions_def)

lemma parseInt_5: "parseInt ''5'' = Some 5"
  by (simp add: parseInt_def isWhiteSpace_def digitValue_def toDouble_def)

lemma agree_document_querySelector:
  assumes "agree s s'" and "list_all selectorStatic sels"
  shows "document_querySelector s sels = document_querySelector s' sels"
proof -
  have "nodes s = nodes s'" using assms(1) by (simp add: agree_def)
  moreover have "\<And>e. matchesAny s e sels = matchesAny s' e sels"
    using agree_matchesAny [OF assms] .
  ultimately show ?thesis by (simp add: document_querySelector_def)
qed

lemma dialogSelectors_static: "list_all selectorStatic dialogSelectors"
  by (simp add: dialogSelectors_def writtenAttributes_def)

lemma processDynamicContent_unfold:
  "processDynamicContent opts s c = detectAndHandleDialogs opts (passes opts s c) c"
  by (simp add: processDynamicContent_def passes_def Let_def)

lemma processDynamicContent_no_dialog:
  assumes "querySelectorAll s c dialogSelectors = []"
  shows "processDynamicContent opts s c = passes opts s c"
proof -
  have "agree s (passes opts s c)" using passes_local [of s opts c] by simp
  from agree_querySelectorAll [OF this dialogSelectors_static, of c] assms
  have "querySelectorAll (passes opts s c) c dialogSelectors = []" by simp
  then show ?thesis
    by (simp add: processDynamicContent_unfold detectAndHandleDialogs_def)
qed

lemma fix_all_twice:
  assumes st: "list_all selectorStatic (container opts)"
  shows "tab (fix_all opts (fix_all opts s)) n = tab (fix_all opts s) n"
proof (cases "document_querySelector s (container opts)")
  case None
  then have "fix_all opts s = s" by (simp add: fix_all_def)
  then show ?thesis by simp
next
  case (Some c)
  define s' where "s' = fix_all opts s"
  have a: "agree s s'"
    and t: "tab s' n = triggersTab opts s c n (passesTab opts s c n (tab s n))"
    using fix_all_local [OF Some, of n] by (simp_all add: s'_def)
  have c': "document_querySelector s' (container opts) = Some c"
    using agree_document_querySelector [OF a st] Some by simp
  have "tab (fix_all opts s') n = triggersTab opts s' c n (passesTab opts s' c n (tab s' n))"
    using fix_all_local [OF c', of n] by simp
  also have "\<dots> = triggersTab opts s c n (passesTab opts s c n (tab s' n))"
    using agree_triggersTab [OF a, of opts c n] agree_passesTab [OF a, of opts c n] by simp
  also have "\<dots> = tab s' n"
    unfolding t triggersTab_def passesTab_def by (rule scan_idem)
  finally show ?thesis by (simp add: s'_def)
qed

lemma passes_twice: "tab (passes opts (passes opts s c) c) n = tab (passes opts s c) n"
proof -
  define s' where "s' = passes opts s c"
  have a: "agree s s'" and t: "tab s' n = passesTab opts s c n (tab s n)"
    using passes_local [of s opts c n] by (simp_all add: s'_def)
  have "tab (passes opts s' c) n = passesTab opts s' c n (tab s' n)"
    using passes_local [of s' opts c n] by simp
  also have "\<dots> = passesTab opts s c n (tab s' n)"
    using agree_passesTab [OF a, of opts c n] by simp
  also have "\<dots> = tab s' n"
    unfolding t passesTab_def using scan_idem [where ?b5.0 = False and ?b6.0 = False] by simp
  finally show ?thesis by (simp add: s'_def)
qed

subsection \<open>Focus traps and dialogs\<close>


lemma setupFocusTrap_listeners:
  "listeners (fst (setupFocusTrap s (Some m) opts)) =
     listeners s @ [(Element m, ''keydown'', TrapKeyDown (length (traps s)))]"
  by (simp add: setupFocusTrap_def Let_def setTimeout_def addEventListener_def setAttribute_def)

lemma setupFocusTrap_agree: "agree s (fst (setupFocusTrap s modal opts))"
  by (cases modal)
    (auto simp: setupFocusTrap_def Let_def setTimeout_def addEventListener_def setAttribute_def
      agree_def writtenAttributes_def)

lemma setupFocusTrap_marker:
  "a \<noteq> ''tabindex'' \<Longrightarrow>
   attributes (fst (setupFocusTrap s modal opts)) e a = attributes s e a"
  by (cases modal)
    (auto simp: setupFocusTrap_def Let_def setTimeout_def addEventListener_def setAttribute_def)

lemma setupFocusTrap_handle:
  "snd (setupFocusTrap s (Some m) opts) = TrapHandle (length (traps s))"
  by (simp add: setupFocusTrap_def Let_def setTimeout_def addEventListener_def setAttribute_def)

lemma handleDialog_unfold:
  "handleDialog opts s d =
     (if \<not> isVisuallyHidden s d \<and> \<not> hasAttribute s d ''data-focus-trap-active''
      then (let s1 = setAttribute s d ''data-focus-trap-active'' ''true'';
                s2 = fst (setupFocusTrap s1 (Some d)
                       \<lparr>optReturnFocusOnClose = Some (returnFocusOnDynamicContentClose opts),
                        optTriggerElement = None\<rparr>)
            in s2\<lparr>observers := observers s2 @ [(d, DialogObserver (length (traps s1)))]\<rparr>)
      else s)"
  by (simp add: handleDialog_def Let_def case_prod_beta setupFocusTrap_handle)

lemma agree_observers: "agree s (s'\<lparr>observers := obs\<rparr>) = agree s s'"
  by (simp add: agree_def)

lemma handleDialog_agree: "agree s (handleDialog opts s d)"
proof -
  have 1: "agree s (setAttribute s d ''data-focus-trap-active'' ''true'')"
    by (rule agree_setAttribute) (simp add: writtenAttributes_def)
  show ?thesis
    using agree_trans [OF 1 setupFocusTrap_agree]
    by (simp add: handleDialog_unfold Let_def agree_observers agree_refl)
qed

lemma handleDialog_keeps_marker:
  "hasAttribute s e ''data-focus-trap-active'' \<Longrightarrow>
   hasAttribute (handleDialog opts s d) e ''data-focus-trap-active''"
  by (simp add: handleDialog_unfold Let_def hasAttribute_def setupFocusTrap_marker
      setAttribute_def)

lemma handleDialog_sets_marker:
  "\<not> isVisuallyHidden s d \<Longrightarrow> hasAttribute (handleDialog opts s d) d ''data-focus-trap-active''"
  by (simp add: handleDialog_unfold Let_def hasAttribute_def setupFocusTrap_marker
      setAttribute_def)

lemma handleDialog_fold:
  "agree s (foldl (handleDialog opts) s xs) \<and>
   (\<forall>e. hasAttribute s e ''data-focus-trap-active'' \<longrightarrow>
        hasAttribute (foldl (handleDialog opts) s xs) e ''data-focus-trap-active'') \<and>
   (\<forall>d \<in> set xs. isVisuallyHidden s d \<or>
        hasAttribute (foldl (handleDialog opts) s xs) d ''data-focus-trap-active'')"
proof (induction xs arbitrary: s)
  case Nil
  show ?case by (simp add: agree_refl)
next
  case (Cons x xs)
  define s1 where "s1 = handleDialog opts s x"
  have a1: "agree s s1" by (simp add: s1_def handleDialog_agree)
  note ih = Cons.IH [of s1]
  have 1: "agree s (foldl (handleDialog opts) s1 xs)"
    using agree_trans [OF a1] ih by blast
  have 2: "\<forall>e. hasAttribute s e ''data-focus-trap-active'' \<longrightarrow>
        hasAttribute (foldl (handleDialog opts) s1 xs) e ''data-focus-trap-active''"
    using ih handleDialog_keeps_marker [of s _ opts x] by (simp add: s1_def)
  have 3: "isVisuallyHidden s x \<or>
        hasAttribute (foldl (handleDialog opts) s1 xs) x ''data-focus-trap-active''"
    using ih handleDialog_sets_marker [of s x opts] by (auto simp: s1_def)
  have 4: "\<forall>d \<in> set xs. isVisuallyHidden s d \<or>
        hasAttribute (foldl (handleDialog opts) s1 xs) d ''data-focus-trap-active''"
    using ih agree_isVisuallyHidden [OF a1] by simp
  show ?case using 1 2 3 4 by (simp add: s1_def)
qed

lemma foldl_fixed: "(\<And>x. x \<in> set xs \<Longrightarrow> f s x = s) \<Longrightarrow> foldl f s xs = s"
  by (induction xs) simp_all

subsection \<open>Further facts for the claims\<close>

lemma agree_nativelyTabbable: "agree s s' \<Longrightarrow> nativelyTabbable s e = nativelyTabbable s' e"
proof -
  assume a: "agree s s'"
  have st: "list_all selectorStatic nativelyFocusable"
    by (simp add: nativelyFocusable_def writtenAttributes_def)
  have d: "disabledControl s e = disabledControl s' e"
    using agree_attr [OF a, of "''disabled''" e] a
    by (simp add: disabledControl_def hasAttribute_def agree_def writtenAttributes_def)
  show ?thesis
    by (simp add: nativelyTabbable_def d agree_matchesAny [OF a st])
qed

lemma coverage_one_node:
  assumes h1: "parseOpt t = None \<or> ge0 (parseOpt t) \<or> t = Some ''-1''"
    and h3: "t = None \<or> parseOpt t \<noteq> None \<or> native"
    and h2: "\<not> b4 \<or> b5 \<or> b6 \<or> native"
  shows "ge0 (parseOpt (P3 b6 (P3 b5 (P4 b4 (P3 True (P2 True (P1 True t))))))) \<or>
         (native \<and> parseOpt (P3 b6 (P3 b5 (P4 b4 (P3 True (P2 True (P1 True t)))))) = None)"
proof (cases t)
  case None
  then show ?thesis
    using h2 by (auto simp: P1_def P2_def P3_def P4_def parseOpt_def gt0_def ge0_def parseInt_0)
next
  case (Some v)
  note tv = this
  show ?thesis
  proof (cases "parseInt v")
    case None
    then show ?thesis
      using h1 h3 tv
      by (auto simp: P1_def P2_def P3_def P4_def parseOpt_def gt0_def ge0_def parseInt_m1)
  next
    case (Some i)
    then show ?thesis
      using h1 h2 tv
      by (auto simp: P1_def P2_def P3_def P4_def parseOpt_def gt0_def ge0_def parseInt_0
          parseInt_m1)
  qed
qed

lemma hasHiddenParent_iff:
  "hasHiddenParent s e \<longleftrightarrow>
   (\<exists>a. inside a e \<and>
        (isVisuallyHidden s a \<or> getAttribute s a ''aria-hidden'' = Some ''true''))"
  by (induction e) auto


lemma detectAndHandleDialogs_twice:
  "detectAndHandleDialogs opts (detectAndHandleDialogs opts s c) c =
     detectAndHandleDialogs opts s c"
proof -
  define xs where "xs = querySelectorAll s c dialogSelectors"
  define s' where "s' = foldl (handleDialog opts) s xs"
  have a: "agree s s'" using handleDialog_fold [of s opts xs] by (simp add: s'_def)
  have xs': "querySelectorAll s' c dialogSelectors = xs"
    using agree_querySelectorAll [OF a dialogSelectors_static, of c] by (simp add: xs_def)
  have fixed: "\<And>d. d \<in> set xs \<Longrightarrow> handleDialog opts s' d = s'"
  proof -
    fix d assume "d \<in> set xs"
    then have "isVisuallyHidden s d \<or> hasAttribute s' d ''data-focus-trap-active''"
      using handleDialog_fold [of s opts xs] by (simp add: s'_def)
    then show "handleDialog opts s' d = s'"
      using agree_isVisuallyHidden [OF a, of d] by (auto simp: handleDialog_def)
  qed
  have "detectAndHandleDialogs opts s' c = s'"
    unfolding detectAndHandleDialogs_def xs' by (rule foldl_fixed) (rule fixed)
  then show ?thesis
    by (simp add: detectAndHandleDialogs_def s'_def xs_def)
qed

section \<open>The claims\<close>

text \<open>
  C10. Called with an absent region, \<open>setupFocusTrap\<close> returns the document unchanged (no
  listener, no timer, no attribute, no focus move) together with a handle whose
  \<open>remove\<close> and \<open>updateTabbableElements\<close> return normally and leave any document they
  are called in unchanged.
\<close>

theorem setupFocusTrap_absent_noop:
  "setupFocusTrap s None opts = (s, NoopHandle) \<and>
   handle_remove s' (snd (setupFocusTrap s None opts)) = (s', Return ()) \<and>
   handle_updateTabbableElements s' (snd (setupFocusTrap s None opts)) = (s', Return ())"
  by (simp add: setupFocusTrap_def handle_remove_def handle_updateTabbableElements_def)

text \<open>
  C1 fails on the code. On a body that holds an empty, visible
  \<open>div class="modal" aria-modal="true"\<close>, the first \<open>processDynamicContent\<close> arms a
  focus trap, and \<open>setupFocusTrap\<close> gives the div \<open>tabindex="0"\<close> because it has no
  tabbable member. The second \<open>processDynamicContent\<close> removes that attribute in
  \<open>validateNonInteractiveElements\<close> and does not arm the dialog again, since it is marked
  \<open>data-focus-trap-active\<close>: the state after the second run differs from the state after
  the first in the \<open>tabindex\<close> of the div.
\<close>

theorem processDynamicContent_twice_differs:
  "getAttribute (processDynamicContent defaultOptions modalDoc [0]) [0, 0] ''tabindex'' = Some ''0'' \<and>
   getAttribute (processDynamicContent defaultOptions
       (processDynamicContent defaultOptions modalDoc [0]) [0]) [0, 0] ''tabindex'' = None"
  by code_simp

text \<open>
  C2. After \<open>fix\<close> with the default options, no element inside the container (a
  descendant of it: the scope of the container's \<open>querySelectorAll\<close>) has a \<open>tabindex\<close>
  attribute that \<open>parseInt\<close> reads as a number greater than 0.
\<close>

theorem fix_no_positive:
  assumes "document_querySelector s (container defaultOptions) = Some c"
    and "n \<in> set (nodes s)" and "inside c n"
  shows "\<not> gt0 (tabindexOf (fix_all defaultOptions s) n)"
proof -
  have sc: "inScope s c n" using assms by (simp add: inScope_def)
  have not_pos: "\<And>b t. \<not> gt0 (parseOpt (P2 True t))"
    by (simp add: P2_def parseOpt_def gt0_def parseInt_0 split: option.splits)
  have keep3: "\<And>b t. \<not> gt0 (parseOpt t) \<Longrightarrow> \<not> gt0 (parseOpt (P3 b t))"
    by (simp add: P3_def parseOpt_def gt0_def parseInt_0)
  have keep4: "\<And>b t. \<not> gt0 (parseOpt t) \<Longrightarrow> \<not> gt0 (parseOpt (P4 b t))"
    by (simp add: P4_def parseOpt_def gt0_def)
  show ?thesis
    using fix_all_local [OF assms(1), of n]
    by (simp add: tabindexOf_tab triggersTab_def passesTab_def sc keep3 keep4 not_pos)
qed

theorem fix_no_positive_witness:
  "\<not> gt0 (tabindexOf (fix_all defaultOptions scenario) [1, 0])"
proof -
  have 1: "document_querySelector scenario (container defaultOptions) = Some [0]" by code_simp
  have 2: "[1, 0] \<in> set (nodes scenario)" by code_simp
  have 3: "inside [0] [1, 0]" by code_simp
  show ?thesis using fix_no_positive [OF 1 2 3] .
qed

text \<open>
  C3, as amended. Take an element inside the container that matches the interactive
  selectors, is not visually hidden, has no hidden ancestor and does not carry
  \<open>aria-hidden="true"\<close>. Suppose further that
  \<^item> its \<open>tabindex\<close>, if it reads as a negative number, is written exactly \<open>-1\<close> (the
    first pass selects \<open>[tabindex="-1"]\<close> only);
  \<^item> its \<open>tabindex\<close>, if present, reads as a number, unless the element takes focus by
    itself (the third pass adds \<open>tabindex\<close> only where there is none);
  \<^item> it is not a \<open>div\<close>, \<open>span\<close>, \<open>p\<close> or heading without \<open>role\<close> and without
    keyboard handler attribute, unless it is a tooltip or dropdown trigger or takes focus
    by itself (on such an element the pass over non-interactive elements removes the
    \<open>tabindex\<close> again; what becomes of it is left open here).

  Then after \<open>fix\<close> with the default options the element carries a \<open>tabindex\<close> that
  reads as a number that is at least 0, or it takes focus by itself in the browser and has
  no \<open>tabindex\<close> that reads as a number.
\<close>

theorem coverage_after_fix:
  assumes c: "document_querySelector s (container defaultOptions) = Some c"
    and n: "n \<in> set (nodes s)" "inside c n"
    and i: "isInteractiveElement s n"
    and v: "\<not> isVisuallyHidden s n" "\<not> hasHiddenParent s n"
      "getAttribute s n ''aria-hidden'' \<noteq> Some ''true''"
    and neg: "tabindexOf s n = None \<or> ge0 (tabindexOf s n) \<or>
              getAttribute s n ''tabindex'' = Some ''-1''"
    and nan: "getAttribute s n ''tabindex'' = None \<or> tabindexOf s n \<noteq> None \<or>
              nativelyTabbable s n"
    and gen: "tagName s n \<notin> set [''div'', ''span'', ''p'', ''h1'', ''h2'', ''h3'', ''h4'', ''h5'', ''h6''] \<or>
              hasAttribute s n ''role'' \<or> hasKeyboardEventListeners s n \<or>
              matchesAny s n tooltipSelectors \<or> matchesAny s n dropdownSelectors \<or>
              nativelyTabbable s n"
  shows "ge0 (tabindexOf (fix_all defaultOptions s) n) \<or>
         (nativelyTabbable (fix_all defaultOptions s) n \<and>
          tabindexOf (fix_all defaultOptions s) n = None)"
proof -
  have sc: "inScope s c n" using n by (simp add: inScope_def)
  have r: "\<not> shouldBeRemovedFromTabOrder s n"
    using v by (simp add: shouldBeRemovedFromTabOrder_def)
  have a: "agree s (fix_all defaultOptions s)"
    and e: "tab (fix_all defaultOptions s) n =
            triggersTab defaultOptions s c n (passesTab defaultOptions s c n (tab s n))"
    using fix_all_local [OF c, of n] by simp_all
  have h1: "parseOpt (tab s n) = None \<or> ge0 (parseOpt (tab s n)) \<or> tab s n = Some ''-1''"
    using neg by (simp add: tabindexOf_tab getAttribute_tab)
  have h3: "tab s n = None \<or> parseOpt (tab s n) \<noteq> None \<or> nativelyTabbable s n"
    using nan by (simp add: tabindexOf_tab getAttribute_tab)
  have h2: "\<not> (nonInteractiveTag s n \<and> \<not> hasAttribute s n ''role'' \<and>
                \<not> hasKeyboardEventListeners s n) \<or>
            matchesAny s n tooltipSelectors \<or> matchesAny s n dropdownSelectors \<or>
            nativelyTabbable s n"
    using gen by (auto simp: nonInteractiveTag_def)
  have "ge0 (parseOpt (tab (fix_all defaultOptions s) n)) \<or>
        (nativelyTabbable s n \<and> parseOpt (tab (fix_all defaultOptions s) n) = None)"
    using coverage_one_node [OF h1 h3 h2]
    unfolding e triggersTab_def passesTab_def
    by (simp add: sc i r v)
  then show ?thesis
    by (simp add: tabindexOf_tab agree_nativelyTabbable [OF a, symmetric])
qed

theorem coverage_after_fix_witness:
  "ge0 (tabindexOf (fix_all defaultOptions scenario) [0, 0]) \<or>
   (nativelyTabbable (fix_all defaultOptions scenario) [0, 0] \<and>
    tabindexOf (fix_all defaultOptions scenario) [0, 0] = None)"
proof -
  have 1: "document_querySelector scenario (container defaultOptions) = Some [0]" by code_simp
  have 2: "[0, 0] \<in> set (nodes scenario)" by code_simp
  have 3: "inside [0] [0, 0]" by code_simp
  have 4: "isInteractiveElement scenario [0, 0]" by code_simp
  have 5: "\<not> isVisuallyHidden scenario [0, 0]" by code_simp
  have 6: "\<not> hasHiddenParent scenario [0, 0]" by code_simp
  have 7: "getAttribute scenario [0, 0] ''aria-hidden'' \<noteq> Some ''true''" by code_simp
  have 8: "tabindexOf scenario [0, 0] = None \<or> ge0 (tabindexOf scenario [0, 0]) \<or>
           getAttribute scenario [0, 0] ''tabindex'' = Some ''-1''" by code_simp
  have 9: "getAttribute scenario [0, 0] ''tabindex'' = None \<or>
           tabindexOf scenario [0, 0] \<noteq> None \<or> nativelyTabbable scenario [0, 0]" by code_simp
  have 10: "tagName scenario [0, 0] \<notin>
              set [''div'', ''span'', ''p'', ''h1'', ''h2'', ''h3'', ''h4'', ''h5'', ''h6''] \<or>
            hasAttribute scenario [0, 0] ''role'' \<or> hasKeyboardEventListeners scenario [0, 0] \<or>
            matchesAny scenario [0, 0] tooltipSelectors \<or>
            matchesAny scenario [0, 0] dropdownSelectors \<or>
            nativelyTabbable scenario [0, 0]" by code_simp
  show ?thesis using coverage_after_fix [OF 1 2 3 4 5 6 7 8 9 10] .
qed

text \<open>
  C3 as stated fails in three ways, one for each added condition. A visible link
  \<open>a href="#" tabindex="-2"\<close> keeps its \<open>tabindex\<close>. A visible
  \<open>div class="accordion-header"\<close> matches the interactive selectors, gets
  \<open>tabindex="0"\<close> from the third pass and loses it to the pass over non-interactive
  elements, so it ends with no \<open>tabindex\<close> and does not take focus by itself. A visible
  \<open>div role="button" tabindex="abc"\<close> keeps an attribute that is no number.
\<close>

theorem coverage_counterexample:
  "document_querySelector negativeDoc (container defaultOptions) = Some [0] \<and>
   [0, 0] \<in> set (nodes negativeDoc) \<and> inside [0] [0, 0] \<and>
   isInteractiveElement negativeDoc [0, 0] \<and>
   \<not> isVisuallyHidden negativeDoc [0, 0] \<and> \<not> hasHiddenParent negativeDoc [0, 0] \<and>
   getAttribute negativeDoc [0, 0] ''aria-hidden'' = None \<and>
   tabindexOf (fix_all defaultOptions negativeDoc) [0, 0] = Some (- 2) \<and>
   document_querySelector accordionDoc (container defaultOptions) = Some [0] \<and>
   [0, 0] \<in> set (nodes accordionDoc) \<and>
   isInteractiveElement accordionDoc [0, 0] \<and>
   \<not> isVisuallyHidden accordionDoc [0, 0] \<and> \<not> hasHiddenParent accordionDoc [0, 0] \<and>
   getAttribute accordionDoc [0, 0] ''aria-hidden'' = None \<and>
   getAttribute (fix_all defaultOptions accordionDoc) [0, 0] ''tabindex'' = None \<and>
   \<not> nativelyTabbable (fix_all defaultOptions accordionDoc) [0, 0] \<and>
   document_querySelector nanDoc (container defaultOptions) = Some [0] \<and>
   [0, 0] \<in> set (nodes nanDoc) \<and>
   isInteractiveElement nanDoc [0, 0] \<and>
   \<not> isVisuallyHidden nanDoc [0, 0] \<and> \<not> hasHiddenParent nanDoc [0, 0] \<and>
   getAttribute nanDoc [0, 0] ''aria-hidden'' = None \<and>
   tabindexOf (fix_all defaultOptions nanDoc) [0, 0] = None \<and>
   \<not> nativelyTabbable (fix_all defaultOptions nanDoc) [0, 0]"
  by code_simp

text \<open>
  C4, as amended. Let the container hold a link \<open>a[href]\<close> with \<open>tabindex="-1"\<close> that
  is not to be removed from the tab order, and a \<open>div\<close> with \<open>tabindex="5"\<close>, no
  \<open>role\<close> and no keyboard handler attribute. After \<open>fix\<close> with the default options the
  link has \<open>tabindex="0"\<close>, and the div has no \<open>tabindex\<close> attribute: the second pass
  rewrites it to \<open>0\<close> and the pass over non-interactive elements then removes it. Only
  when the div is a tooltip or dropdown trigger does the last step of \<open>fix\<close> give it
  \<open>tabindex="0"\<close> again.
\<close>

theorem scenario_link_and_div:
  assumes c: "document_querySelector s (container defaultOptions) = Some c"
    and l: "link \<in> set (nodes s)" "inside c link" "tagName s link = ''a''"
      "hasAttribute s link ''href''" "\<not> shouldBeRemovedFromTabOrder s link"
      "getAttribute s link ''tabindex'' = Some ''-1''"
    and d: "d \<in> set (nodes s)" "inside c d" "tagName s d = ''div''"
      "getAttribute s d ''tabindex'' = Some ''5''" "\<not> hasAttribute s d ''role''"
      "\<not> hasKeyboardEventListeners s d"
  shows "getAttribute (fix_all defaultOptions s) link ''tabindex'' = Some ''0'' \<and>
         getAttribute (fix_all defaultOptions s) d ''tabindex'' =
           (if matchesAny s d tooltipSelectors \<or> matchesAny s d dropdownSelectors
            then Some ''0'' else None)"
proof -
  have li: "isInteractiveElement s link"
    using l(3,4) by (simp add: isInteractiveElement_def interactiveSelectors_def
        matchesCompound_def hasAttribute_def)
  have ln: "\<not> nonInteractiveTag s link" using l(3) by (simp add: nonInteractiveTag_def)
  have dn: "nonInteractiveTag s d" using d(3) by (simp add: nonInteractiveTag_def)
  have scl: "inScope s c link" using l by (simp add: inScope_def)
  have scd: "inScope s c d" using d by (simp add: inScope_def)
  have 1: "tab (fix_all defaultOptions s) link = Some ''0''"
    using fix_all_local [OF c, of link] l(5,6)
    by (simp add: triggersTab_def passesTab_def getAttribute_tab scl li ln
        P1_def P2_def P3_def P4_def parseOpt_def gt0_def parseInt_0)
  have 2: "tab (fix_all defaultOptions s) d =
           (if matchesAny s d tooltipSelectors \<or> matchesAny s d dropdownSelectors
            then Some ''0'' else None)"
    using fix_all_local [OF c, of d] d(4,5,6)
    by (simp add: triggersTab_def passesTab_def getAttribute_tab scd dn
        P1_def P2_def P3_def P4_def parseOpt_def gt0_def ge0_def parseInt_0 parseInt_5)
  show ?thesis using 1 2 by (simp add: getAttribute_tab)
qed

theorem scenario_link_and_div_witness:
  "getAttribute (fix_all defaultOptions scenario) [0, 0] ''tabindex'' = Some ''0'' \<and>
   getAttribute (fix_all defaultOptions scenario) [1, 0] ''tabindex'' = None"
proof -
  have c: "document_querySelector scenario (container defaultOptions) = Some [0]" by code_simp
  have l: "[0, 0] \<in> set (nodes scenario)" "inside [0] [0, 0]" "tagName scenario [0, 0] = ''a''"
      "hasAttribute scenario [0, 0] ''href''" "\<not> shouldBeRemovedFromTabOrder scenario [0, 0]"
      "getAttribute scenario [0, 0] ''tabindex'' = Some ''-1''" by code_simp+
  have d: "[1, 0] \<in> set (nodes scenario)" "inside [0] [1, 0]" "tagName scenario [1, 0] = ''div''"
      "getAttribute scenario [1, 0] ''tabindex'' = Some ''5''" "\<not> hasAttribute scenario [1, 0] ''role''"
      "\<not> hasKeyboardEventListeners scenario [1, 0]" by code_simp+
  have t: "\<not> (matchesAny scenario [1, 0] tooltipSelectors \<or>
               matchesAny scenario [1, 0] dropdownSelectors)" by code_simp
  show ?thesis using scenario_link_and_div [OF c l d] t by simp
qed

text \<open>
  C4 as stated fails on the scenario itself: after \<open>fix\<close> the div's \<open>tabindex\<close> is not
  \<open>0\<close>, it is gone.
\<close>

theorem scenario_div_counterexample:
  "getAttribute (fix_all defaultOptions scenario) [1, 0] ''tabindex'' \<noteq> Some ''0''"
  by code_simp




text \<open>
  C6 fails on the code. In a dialog that holds three buttons, \<open>setupFocusTrap\<close> returns
  a handle whose \<open>updateTabbableElements\<close> finds the three buttons and then assigns to
  the \<open>const\<close> binding \<open>firstTabbable\<close>: the call raises a \<open>TypeError\<close>.
\<close>

theorem updateTabbableElements_throws:
  "snd (handle_updateTabbableElements
         (fst (setupFocusTrap trapDoc (Some [0, 0]) noTrapOptions))
         (snd (setupFocusTrap trapDoc (Some [0, 0]) noTrapOptions))) = Throw TypeError"
  by code_simp

text \<open>
  C7 fails on the code. \<open>detectAndHandleDialogs\<close> marks a dialog it arms with
  \<open>data-focus-trap-active\<close> and skips marked dialogs, but \<open>setupFocusTrap\<close> neither sets
  nor tests the marker. Two calls of \<open>setupFocusTrap\<close> on the same dialog leave two
  \<open>keydown\<close> listeners on it and two sets of captured variables. So do
  \<open>detectAndHandleDialogs\<close> followed by \<open>setupFocusTrap\<close>, and \<open>setupFocusTrap\<close> followed
  by \<open>detectAndHandleDialogs\<close>.
\<close>

theorem second_trap_on_armed_region:
  "listeners (fst (setupFocusTrap (fst (setupFocusTrap trapDoc (Some [0, 0]) noTrapOptions))
       (Some [0, 0]) noTrapOptions)) =
     [(Element [0, 0], ''keydown'', TrapKeyDown 0), (Element [0, 0], ''keydown'', TrapKeyDown 1)] \<and>
   length (traps (fst (setupFocusTrap (fst (setupFocusTrap trapDoc (Some [0, 0]) noTrapOptions))
       (Some [0, 0]) noTrapOptions))) = 2 \<and>
   listeners (fst (setupFocusTrap (detectAndHandleDialogs defaultOptions trapDoc [0])
       (Some [0, 0]) noTrapOptions)) =
     [(Element [0, 0], ''keydown'', TrapKeyDown 0), (Element [0, 0], ''keydown'', TrapKeyDown 1)] \<and>
   listeners (detectAndHandleDialogs defaultOptions
       (fst (setupFocusTrap trapDoc (Some [0, 0]) noTrapOptions)) [0]) =
     [(Element [0, 0], ''keydown'', TrapKeyDown 0), (Element [0, 0], ''keydown'', TrapKeyDown 1)]"
  by code_simp

text \<open>
  C8 fails on the code. For a link \<open>a href="#"\<close> without \<open>tabindex\<close> followed by a
  \<open>div tabindex="0"\<close>, \<open>analyzeTabOrder\<close> lists the div before the link: elements with
  a \<open>tabindex\<close> attribute are collected first, the others after them, and the comparison
  function returns 0 for two entries of order 0, so the stable sort keeps that order
  instead of the document order.
\<close>

theorem analyzeTabOrder_implicit_after_explicit:
  "analyzeTabOrder orderDoc [0] = [([1, 0], 0), ([0, 0], 0)]"
  by code_simp

text \<open>
  C9, as amended. For an absent node both visibility tests raise a \<open>TypeError\<close>. For a
  present element both return a truth value and raise nothing. \<open>isVisuallyHidden\<close> is
  true exactly when the computed style of the element has \<open>display: none\<close>,
  \<open>visibility: hidden\<close>, \<open>opacity: 0\<close>, or is absolutely positioned with a width or
  height of \<open>1px\<close> and hidden overflow. \<open>hasHiddenParent\<close> is true exactly when some
  proper ancestor is visually hidden in that sense or carries \<open>aria-hidden="true"\<close>.
  Nothing else enters: two documents with the same computed styles and the same
  \<open>aria-hidden\<close> attributes give the same answers, whether or not the element is among
  the nodes of the document. In particular an element whose computed style is empty, as
  a browser reports it for a detached element, is not visually hidden, and an element
  without a parent has no hidden parent.
\<close>

theorem visibility_tests:
  "call_isVisuallyHidden s None = Throw TypeError \<and>
   call_hasHiddenParent s None = Throw TypeError \<and>
   call_isVisuallyHidden s (Some e) =
     Return (display (computedStyle s e) = ''none'' \<or>
             visibility (computedStyle s e) = ''hidden'' \<or>
             opacity (computedStyle s e) = ''0'' \<or>
             (position (computedStyle s e) = ''absolute'' \<and>
              (width (computedStyle s e) = ''1px'' \<or> height (computedStyle s e) = ''1px'') \<and>
              overflow (computedStyle s e) = ''hidden'')) \<and>
   call_hasHiddenParent s (Some e) =
     Return (\<exists>a. inside a e \<and>
                  (call_isVisuallyHidden s (Some a) = Return True \<or>
                   getAttribute s a ''aria-hidden'' = Some ''true'')) \<and>
   (\<forall>s'. computedStyle s' = computedStyle s \<and>
         (\<forall>a. getAttribute s' a ''aria-hidden'' = getAttribute s a ''aria-hidden'') \<longrightarrow>
         call_isVisuallyHidden s' (Some e) = call_isVisuallyHidden s (Some e) \<and>
         call_hasHiddenParent s' (Some e) = call_hasHiddenParent s (Some e)) \<and>
   (computedStyle s e = emptyStyle \<longrightarrow> call_isVisuallyHidden s (Some e) = Return False) \<and>
   (parentElement e = None \<longrightarrow> call_hasHiddenParent s (Some e) = Return False)"
proof -
  have frame: "\<And>s'. computedStyle s' = computedStyle s \<Longrightarrow>
      (\<forall>a. getAttribute s' a ''aria-hidden'' = getAttribute s a ''aria-hidden'') \<Longrightarrow>
      isVisuallyHidden s' e = isVisuallyHidden s e \<and> hasHiddenParent s' e = hasHiddenParent s e"
  proof -
    fix s' assume st: "computedStyle s' = computedStyle s"
      and ar: "\<forall>a. getAttribute s' a ''aria-hidden'' = getAttribute s a ''aria-hidden''"
    have 1: "\<And>a. isVisuallyHidden s' a = isVisuallyHidden s a"
      by (simp add: isVisuallyHidden_def st)
    show "isVisuallyHidden s' e = isVisuallyHidden s e \<and>
          hasHiddenParent s' e = hasHiddenParent s e"
      using ar by (simp add: 1 hasHiddenParent_iff)
  qed
  have p: "parentElement e = None \<Longrightarrow> \<not> hasHiddenParent s e"
    by (cases e) simp_all
  have c1: "call_isVisuallyHidden s (Some e) =
     Return (display (computedStyle s e) = ''none'' \<or>
             visibility (computedStyle s e) = ''hidden'' \<or>
             opacity (computedStyle s e) = ''0'' \<or>
             (position (computedStyle s e) = ''absolute'' \<and>
              (width (computedStyle s e) = ''1px'' \<or> height (computedStyle s e) = ''1px'') \<and>
              overflow (computedStyle s e) = ''hidden''))"
    by (simp add: call_isVisuallyHidden_def isVisuallyHidden_def Let_def)
  have c2: "call_hasHiddenParent s (Some e) =
     Return (\<exists>a. inside a e \<and>
                  (call_isVisuallyHidden s (Some a) = Return True \<or>
                   getAttribute s a ''aria-hidden'' = Some ''true''))"
    by (simp add: call_hasHiddenParent_def call_isVisuallyHidden_def hasHiddenParent_iff)
  have c3: "\<forall>s'. computedStyle s' = computedStyle s \<and>
         (\<forall>a. getAttribute s' a ''aria-hidden'' = getAttribute s a ''aria-hidden'') \<longrightarrow>
         call_isVisuallyHidden s' (Some e) = call_isVisuallyHidden s (Some e) \<and>
         call_hasHiddenParent s' (Some e) = call_hasHiddenParent s (Some e)"
  proof (intro allI impI, elim conjE)
    fix s' assume st: "computedStyle s' = computedStyle s"
      and ar: "\<forall>a. getAttribute s' a ''aria-hidden'' = getAttribute s a ''aria-hidden''"
    from frame [OF st ar]
    show "call_isVisuallyHidden s' (Some e) = call_isVisuallyHidden s (Some e) \<and>
          call_hasHiddenParent s' (Some e) = call_hasHiddenParent s (Some e)"
      by (simp add: call_isVisuallyHidden_def call_hasHiddenParent_def)
  qed
  have c4: "computedStyle s e = emptyStyle \<longrightarrow> call_isVisuallyHidden s (Some e) = Return False"
    by (simp add: call_isVisuallyHidden_def isVisuallyHidden_def emptyStyle_def)
  have c5: "parentElement e = None \<longrightarrow> call_hasHiddenParent s (Some e) = Return False"
    using p by (simp add: call_hasHiddenParent_def)
  have c0: "call_isVisuallyHidden s None = Throw TypeError"
    "call_hasHiddenParent s None = Throw TypeError"
    by (simp_all add: call_isVisuallyHidden_def call_hasHiddenParent_def)
  show ?thesis by (intro conjI c0 c1 c2 c3 c4 c5)
qed

theorem visibility_tests_witness:
  "call_isVisuallyHidden hiddenDoc (Some [0, 0, 0]) = Return False \<and>
   call_hasHiddenParent hiddenDoc (Some [0, 0, 0]) = Return True \<and>
   call_isVisuallyHidden detachedDoc (Some []) = Return False \<and>
   call_hasHiddenParent detachedDoc (Some []) = Return False"
proof -
  have st: "computedStyle hiddenDoc [0, 0, 0] = visibleStyle"
    by (simp add: hiddenDoc_def page_def)
  have a: "inside [0, 0] [0, 0, 0] \<and>
           getAttribute hiddenDoc [0, 0] ''aria-hidden'' = Some ''true''" by code_simp
  have 1: "computedStyle detachedDoc [] = emptyStyle" by (simp add: detachedDoc_def)
  have 2: "parentElement [] = None" by simp
  note V = visibility_tests [of hiddenDoc "[0, 0, 0]"]
  note D = visibility_tests [of detachedDoc "[]"]
  have h1: "call_isVisuallyHidden hiddenDoc (Some [0, 0, 0]) = Return False"
    using V [THEN conjunct2, THEN conjunct2, THEN conjunct1]
    by (simp add: st visibleStyle_def)
  have ex: "\<exists>a. inside a [0, 0, 0] \<and>
             (call_isVisuallyHidden hiddenDoc (Some a) = Return True \<or>
              getAttribute hiddenDoc a ''aria-hidden'' = Some ''true'')"
    using a by blast
  have h2: "call_hasHiddenParent hiddenDoc (Some [0, 0, 0]) = Return True"
    using V [THEN conjunct2, THEN conjunct2, THEN conjunct2, THEN conjunct1] ex
    by simp
  have d1: "call_isVisuallyHidden detachedDoc (Some []) = Return False"
    using D [THEN conjunct2, THEN conjunct2, THEN conjunct2, THEN conjunct2, THEN conjunct2,
        THEN conjunct1] 1 by simp
  have d2: "call_hasHiddenParent detachedDoc (Some []) = Return False"
    using D [THEN conjunct2, THEN conjunct2, THEN conjunct2, THEN conjunct2, THEN conjunct2,
        THEN conjunct2] 2 by simp
  show ?thesis by (intro conjI h1 h2 d1 d2)
qed

text \<open>
  C9 as stated fails: called with an absent node, neither test returns true; both raise.
\<close>

theorem absent_node_counterexample:
  "call_isVisuallyHidden scenario None = Throw TypeError \<and>
   call_hasHiddenParent scenario None = Throw TypeError"
  by code_simp

end
